theory Spec2Isabelle
  imports Main
begin

section \<open>Go strings: bytes, runes and the functions of \<open>strings\<close> and \<open>unicode/utf8\<close>\<close>

text \<open>
  A Go string is a sequence of bytes; \<^typ>\<open>string\<close> (a list of 8-bit characters) models it
  byte for byte. \<open>ParseDocument\<close> calls \<open>strings.TrimSpace\<close>, \<open>strings.Fields\<close>,
  \<open>strings.Join\<close> and \<open>strings.ToValidUTF8\<close>; all of them read the bytes as UTF-8, one
  rune at a time, through the decoder of \<open>unicode/utf8\<close>: a byte that starts no well-formed
  encoding decodes to \<open>RuneError\<close> with width 1.
\<close>

definition RuneError :: nat where
  "RuneError = 0xFFFD"

definition byte :: "char \<Rightarrow> nat" where
  "byte c = of_char c"

definition acceptRange :: "nat \<Rightarrow> nat \<times> nat" where
  "acceptRange s0 =
     (if s0 = 0xE0 then (0xA0, 0xBF)
      else if s0 = 0xED then (0x80, 0x9F)
      else if s0 = 0xF0 then (0x90, 0xBF)
      else if s0 = 0xF4 then (0x80, 0x8F)
      else (0x80, 0xBF))"

definition second_ok :: "nat \<Rightarrow> nat \<Rightarrow> bool" where
  "second_ok s0 s1 = (fst (acceptRange s0) \<le> s1 \<and> s1 \<le> snd (acceptRange s0))"

definition cont :: "nat \<Rightarrow> bool" where
  "cont b = (0x80 \<le> b \<and> b \<le> 0xBF)"

fun decode2 :: "nat \<Rightarrow> string \<Rightarrow> nat \<times> nat" where
  "decode2 s0 (c1 # cs) =
     (if second_ok s0 (byte c1) then ((s0 mod 32) * 64 + byte c1 mod 64, 2) else (RuneError, 1))"
| "decode2 s0 [] = (RuneError, 1)"

fun decode3 :: "nat \<Rightarrow> string \<Rightarrow> nat \<times> nat" where
  "decode3 s0 (c1 # c2 # cs) =
     (if second_ok s0 (byte c1) \<and> cont (byte c2)
      then ((s0 mod 16) * 4096 + (byte c1 mod 64) * 64 + byte c2 mod 64, 3)
      else (RuneError, 1))"
| "decode3 s0 cs = (RuneError, 1)"

fun decode4 :: "nat \<Rightarrow> string \<Rightarrow> nat \<times> nat" where
  "decode4 s0 (c1 # c2 # c3 # cs) =
     (if second_ok s0 (byte c1) \<and> cont (byte c2) \<and> cont (byte c3)
      then ((s0 mod 8) * 262144 + (byte c1 mod 64) * 4096 + (byte c2 mod 64) * 64
              + byte c3 mod 64, 4)
      else (RuneError, 1))"
| "decode4 s0 cs = (RuneError, 1)"

text \<open>
  \<open>utf8.DecodeRuneInString\<close>: the rune at the head of the string and its width in bytes.
  The lead byte fixes the length (1 to 4) and the range the second byte must lie in; a
  truncated or ill-formed sequence is \<open>(RuneError, 1)\<close>, the empty string \<open>(RuneError, 0)\<close>.
\<close>

definition utf8_DecodeRuneInString :: "string \<Rightarrow> nat \<times> nat" where
  "utf8_DecodeRuneInString s =
     (case s of
        [] \<Rightarrow> (RuneError, 0)
      | c0 # cs \<Rightarrow>
          if byte c0 < 0x80 then (byte c0, 1)
          else if byte c0 < 0xC2 \<or> 0xF4 < byte c0 then (RuneError, 1)
          else if byte c0 < 0xE0 then decode2 (byte c0) cs
          else if byte c0 < 0xF0 then decode3 (byte c0) cs
          else decode4 (byte c0) cs)"

lemma decode2_pos [simp]: "0 < snd (decode2 s0 cs)"
  by (cases "(s0, cs)" rule: decode2.cases) auto

lemma decode3_pos [simp]: "0 < snd (decode3 s0 cs)"
  by (cases "(s0, cs)" rule: decode3.cases) auto

lemma decode4_pos [simp]: "0 < snd (decode4 s0 cs)"
  by (cases "(s0, cs)" rule: decode4.cases) auto

lemma decode2_le [simp]: "snd (decode2 s0 cs) \<le> Suc (length cs)"
  by (cases "(s0, cs)" rule: decode2.cases) auto

lemma decode3_le [simp]: "snd (decode3 s0 cs) \<le> Suc (length cs)"
  by (cases "(s0, cs)" rule: decode3.cases) auto

lemma decode4_le [simp]: "snd (decode4 s0 cs) \<le> Suc (length cs)"
  by (cases "(s0, cs)" rule: decode4.cases) auto

lemma width_pos: "s \<noteq> [] \<Longrightarrow> 0 < snd (utf8_DecodeRuneInString s)"
  by (cases s) (simp_all add: utf8_DecodeRuneInString_def)

lemma width_le: "snd (utf8_DecodeRuneInString s) \<le> length s"
  by (cases s) (simp_all add: utf8_DecodeRuneInString_def)

text \<open>\<open>unicode.IsSpace\<close>: the code points with the Unicode property White_Space.\<close>

definition unicode_IsSpace :: "nat \<Rightarrow> bool" where
  "unicode_IsSpace r =
     ((0x09 \<le> r \<and> r \<le> 0x0D) \<or> r = 0x20 \<or> r = 0x85 \<or> r = 0xA0 \<or> r = 0x1680
      \<or> (0x2000 \<le> r \<and> r \<le> 0x200A) \<or> r = 0x2028 \<or> r = 0x2029 \<or> r = 0x202F
      \<or> r = 0x205F \<or> r = 0x3000)"

text \<open>
  \<open>strings.TrimLeftFunc(s, unicode.IsSpace)\<close>: runes are read from the front and dropped
  while they are white space.
\<close>

function TrimLeftSpace :: "string \<Rightarrow> string" where
  "TrimLeftSpace s =
     (if s = [] then []
      else if unicode_IsSpace (fst (utf8_DecodeRuneInString s))
           then TrimLeftSpace (drop (snd (utf8_DecodeRuneInString s)) s)
           else s)"
  by pat_completeness auto
termination
  by (relation "measure length") (auto simp: width_pos)

declare TrimLeftSpace.simps [simp del]

definition utf8_RuneStart :: "nat \<Rightarrow> bool" where
  "utf8_RuneStart b = (\<not> cont b)"

text \<open>
  The loop of \<open>utf8.DecodeLastRuneInString\<close> that walks back from the last byte, at most
  to \<open>lim\<close>, until it stands on a byte that can start a rune. The index is a Go \<open>int\<close>: it
  leaves the loop at \<open>lim - 1\<close>, which is \<open>-1\<close> on a short string.
\<close>

function backScan :: "string \<Rightarrow> int \<Rightarrow> int \<Rightarrow> int" where
  "backScan s start lim =
     (if lim \<le> start
      then (if utf8_RuneStart (byte (s ! nat start)) then start else backScan s (start - 1) lim)
      else start)"
  by pat_completeness auto
termination
  by (relation "measure (\<lambda>(s, start, lim). nat (start - lim + 1))") auto

declare backScan.simps [simp del]

definition utf8_DecodeLastRuneInString :: "string \<Rightarrow> nat \<times> nat" where
  "utf8_DecodeLastRuneInString s =
     (if s = [] then (RuneError, 0)
      else if byte (last s) < 0x80 then (byte (last s), 1)
      else
        let e = int (length s);
            lim = max 0 (e - 4);
            start0 = backScan s (e - 2) lim;
            start = (if start0 < 0 then 0 else start0);
            d = utf8_DecodeRuneInString (drop (nat start) s)
        in if start + int (snd d) \<noteq> e then (RuneError, 1) else d)"

lemma backScan_le: "backScan s start lim \<le> start"
  by (induction s start lim rule: backScan.induct) (subst backScan.simps, auto)

lemma last_width_pos: "s \<noteq> [] \<Longrightarrow> 0 < snd (utf8_DecodeLastRuneInString s)"
proof -
  assume ne: "s \<noteq> []"
  define e where "e = int (length s)"
  define start0 where "start0 = backScan s (e - 2) (max 0 (e - 4))"
  define start where "start = (if start0 < 0 then 0 else start0)"
  have "start0 \<le> e - 2" unfolding start0_def by (rule backScan_le)
  moreover have "0 < e" using ne by (simp add: e_def)
  ultimately have lt: "start < e" by (simp add: start_def)
  have "start + int (snd (utf8_DecodeRuneInString (drop (nat start) s))) = e
        \<Longrightarrow> 0 < snd (utf8_DecodeRuneInString (drop (nat start) s))"
    using lt by (cases "snd (utf8_DecodeRuneInString (drop (nat start) s))") auto
  then show ?thesis
    using ne by (auto simp: utf8_DecodeLastRuneInString_def Let_def e_def start0_def start_def)
qed

text \<open>
  \<open>lastIndexFunc(s, unicode.IsSpace, false)\<close>: runes are read from the back; the result is
  the byte index where the last rune that is not white space starts, \<open>None\<close> for Go's \<open>-1\<close>.
\<close>

function lastIndexNotSpace :: "string \<Rightarrow> nat option" where
  "lastIndexNotSpace s =
     (if s = [] then None
      else if \<not> unicode_IsSpace (fst (utf8_DecodeLastRuneInString s))
           then Some (length s - snd (utf8_DecodeLastRuneInString s))
           else lastIndexNotSpace (take (length s - snd (utf8_DecodeLastRuneInString s)) s))"
  by pat_completeness auto
termination
  by (relation "measure length") (auto simp: last_width_pos)

declare lastIndexNotSpace.simps [simp del]

text \<open>
  \<open>strings.TrimRightFunc(s, unicode.IsSpace)\<close>: the string is cut after the last rune that
  is not white space; the width of that rune is read forwards from its first byte.
\<close>

definition TrimRightSpace :: "string \<Rightarrow> string" where
  "TrimRightSpace s =
     (case lastIndexNotSpace s of
        None \<Rightarrow> []
      | Some i \<Rightarrow>
          if 0x80 \<le> byte (s ! i)
          then take (i + snd (utf8_DecodeRuneInString (drop i s))) s
          else take (i + 1) s)"

text \<open>
  \<open>strings.TrimSpace\<close>: leading and trailing white space removed. (Go first strips ASCII
  space bytewise and falls back to the two functions above at the first byte that is not
  ASCII; the result is the same.)
\<close>

definition strings_TrimSpace :: "string \<Rightarrow> string" where
  "strings_TrimSpace s = TrimRightSpace (TrimLeftSpace s)"

text \<open>
  \<open>strings.Fields\<close> (by \<open>FieldsFunc(s, unicode.IsSpace)\<close>): the maximal runs of runes that
  are not white space, in order. \<open>cur\<close> is the field being read, if any.
\<close>

function fieldsLoop :: "string option \<Rightarrow> string \<Rightarrow> string list" where
  "fieldsLoop cur s =
     (if s = [] then (case cur of None \<Rightarrow> [] | Some f \<Rightarrow> [f])
      else if unicode_IsSpace (fst (utf8_DecodeRuneInString s))
           then (case cur of
                   None \<Rightarrow> fieldsLoop None (drop (snd (utf8_DecodeRuneInString s)) s)
                 | Some f \<Rightarrow> f # fieldsLoop None (drop (snd (utf8_DecodeRuneInString s)) s))
           else fieldsLoop
                  (Some ((case cur of None \<Rightarrow> [] | Some f \<Rightarrow> f)
                           @ take (snd (utf8_DecodeRuneInString s)) s))
                  (drop (snd (utf8_DecodeRuneInString s)) s))"
  by pat_completeness auto
termination
  by (relation "measure (\<lambda>(cur, s). length s)") (auto simp: width_pos)

declare fieldsLoop.simps [simp del]

definition strings_Fields :: "string \<Rightarrow> string list" where
  "strings_Fields s = fieldsLoop None s"

fun strings_Join :: "string list \<Rightarrow> string \<Rightarrow> string" where
  "strings_Join [] sep = []"
| "strings_Join [x] sep = x"
| "strings_Join (x # y # ys) sep = x @ sep @ strings_Join (y # ys) sep"

text \<open>
  \<open>strings.ToValidUTF8(s, replacement)\<close>: every maximal run of bytes that belong to no
  well-formed encoding is replaced by one copy of \<open>replacement\<close>; \<open>invalid\<close> tells whether
  the byte before was such a byte. (Go copies the well-formed prefix first and returns a
  string with no ill-formed byte as it is; the loop from the first byte gives the same.)
\<close>

function toValidLoop :: "string \<Rightarrow> bool \<Rightarrow> string \<Rightarrow> string" where
  "toValidLoop replacement invalid s =
     (if s = [] then []
      else if byte (hd s) < 0x80 then hd s # toValidLoop replacement False (tl s)
      else if snd (utf8_DecodeRuneInString s) = 1
           then (if invalid then [] else replacement) @ toValidLoop replacement True (tl s)
           else take (snd (utf8_DecodeRuneInString s)) s
                  @ toValidLoop replacement False (drop (snd (utf8_DecodeRuneInString s)) s))"
  by pat_completeness auto
termination
  by (relation "measure (\<lambda>(r, i, s). length s)") (auto simp: width_pos)

declare toValidLoop.simps [simp del]

definition strings_ToValidUTF8 :: "string \<Rightarrow> string \<Rightarrow> string" where
  "strings_ToValidUTF8 s replacement = toValidLoop replacement False s"

text \<open>\<open>utf8.ValidString\<close>: the string is a sequence of well-formed encodings.\<close>

function utf8_ValidString :: "string \<Rightarrow> bool" where
  "utf8_ValidString s =
     (if s = [] then True
      else if 0x80 \<le> byte (hd s) \<and> snd (utf8_DecodeRuneInString s) = 1 then False
      else utf8_ValidString (drop (snd (utf8_DecodeRuneInString s)) s))"
  by pat_completeness auto
termination
  by (relation "measure length") (auto simp: width_pos)

declare utf8_ValidString.simps [simp del]

text \<open>\<open>utf8.RuneCountInString\<close>: the number of runes; an ill-formed byte counts as one.\<close>

function utf8_RuneCountInString :: "string \<Rightarrow> nat" where
  "utf8_RuneCountInString s =
     (if s = [] then 0
      else Suc (utf8_RuneCountInString (drop (snd (utf8_DecodeRuneInString s)) s)))"
  by pat_completeness auto
termination
  by (relation "measure length") (auto simp: width_pos)

declare utf8_RuneCountInString.simps [simp del]

text \<open>
  Modelled from the spec: \<open>charCount\<close>, the package's helper that measures a text, is
  declared in another file. The specification calls its result the computed length of the
  plain text (\<open>Length\<close>, the extracted text length); the model counts the characters
  (runes) of the string.
\<close>

definition charCount :: "string \<Rightarrow> int" where
  "charCount str = int (utf8_RuneCountInString str)"

section \<open>The document tree and the operations of the DOM library\<close>

text \<open>
  A node of \<open>golang.org/x/net/html\<close>: its type, its data (the tag name of an element, the
  characters of a text node), its attributes and its children in order. The parent and
  sibling pointers of the Go struct are the shape of this tree.
\<close>

datatype NodeType =
  ErrorNode | TextNode | DocumentNode | ElementNode | CommentNode | DoctypeNode | RawNode

record Attribute =
  attr_Namespace :: string
  attr_Key :: string
  attr_Val :: string

datatype html_Node =
  Html_Node (node_Type: NodeType) (node_Data: string) (node_Attr: "Attribute list")
    (node_Children: "html_Node list")

text \<open>\<open>dom.Clone(src, true)\<close>: a new node for every node of the tree, with the same fields.\<close>

fun dom_Clone :: "html_Node \<Rightarrow> html_Node" where
  "dom_Clone (Html_Node ty d a cs) = Html_Node ty d a (map dom_Clone cs)"

text \<open>
  \<open>dom.GetElementsByTagName(doc, tagName)\<close>: the elements below \<open>doc\<close> (not \<open>doc\<close>
  itself) with that tag name, or all of them for \<open>*\<close>, in document order.
\<close>

fun finder :: "string \<Rightarrow> html_Node \<Rightarrow> html_Node list" where
  "finder tagName (Html_Node ty d a cs) =
     (if ty = ElementNode \<and> (tagName = ''*'' \<or> d = tagName) then [Html_Node ty d a cs] else [])
       @ concat (map (finder tagName) cs)"

definition dom_GetElementsByTagName :: "html_Node \<Rightarrow> string \<Rightarrow> html_Node list" where
  "dom_GetElementsByTagName n tagName = concat (map (finder tagName) (node_Children n))"

text \<open>\<open>dom.TextContent\<close>: the data of every text node of the tree, in document order.\<close>

fun dom_TextContent :: "html_Node \<Rightarrow> string" where
  "dom_TextContent (Html_Node ty d a cs) =
     (if ty = TextNode then d else []) @ concat (map dom_TextContent cs)"

text \<open>\<open>dom.FirstElementChild\<close>: the first child that is an element, \<open>None\<close> for Go's nil.\<close>

definition dom_FirstElementChild :: "html_Node \<Rightarrow> html_Node option" where
  "dom_FirstElementChild n = find (\<lambda>c. node_Type c = ElementNode) (node_Children n)"

section \<open>The parser, the article and the memory they live in\<close>

record flags =
  stripUnlikelys :: bool
  useWeightClasses :: bool
  cleanConditionally :: bool

record parseAttempt =
  articleContent :: html_Node
  textLength :: int

text \<open>A \<open>*url.URL\<close>, seen through the only method \<open>ParseDocument\<close> calls: \<open>String()\<close>.\<close>

datatype URL = URL (url_String: string)

text \<open>
  Documents live in a store of trees: an address is an index, allocation appends.
  A \<open>*html.Node\<close> that roots a document is an address, so two names of one tree are one
  address, and a write through either is seen through both.
\<close>

type_synonym addr = nat
type_synonym store = "html_Node list"

text \<open>
  The fields of \<open>Parser\<close> that \<open>ParseDocument\<close> reads or writes. \<open>doc\<close> is the pointer to the
  tree the parser works on.
\<close>

record Parser =
  MaxElemsToParse :: int
  DisableJSONLD :: bool
  doc :: addr
  documentURI :: "URL option"
  articleTitle :: string
  articleByline :: string
  articleDir :: string
  articleSiteName :: string
  attempts :: "parseAttempt list"
  flags :: flags

text \<open>
  The result record. \<open>Node\<close> points into the parser's tree; the model keeps the node it
  points to. A \<open>*time.Time\<close> is \<open>'t option\<close>, for whatever type \<open>'t\<close> of time stamps the
  date parser returns.
\<close>

record 't Article =
  Title :: string
  Byline :: string
  Node :: "html_Node option"
  Content :: string
  TextContent :: string
  Length :: int
  Excerpt :: string
  SiteName :: string
  Image :: string
  Favicon :: string
  PublishedTime :: "'t option"
  ModifiedTime :: "'t option"

text \<open>The zero value \<open>Article{}\<close>.\<close>

definition Article_zero :: "'t Article" where
  "Article_zero =
     \<lparr>Title = [], Byline = [], Node = None, Content = [], TextContent = [], Length = 0,
      Excerpt = [], SiteName = [], Image = [], Favicon = [],
      PublishedTime = None, ModifiedTime = None\<rparr>"

text \<open>
  The two errors the file builds with \<open>fmt.Errorf\<close>: \<open>failed to parse input: <err>\<close>, with
  the message of the HTML parser's error, and \<open>documents too large: <n> elements\<close>.
\<close>

datatype error = FailedToParseInput string | DocumentsTooLarge int

text \<open>
  What a call leaves behind: the pair \<open>(Article, error)\<close> it returns, the parser's fields,
  the store, and the lines it wrote to standard output.
\<close>

record 't outcome =
  ret_Article :: "'t Article"
  ret_error :: "error option"
  ps_after :: Parser
  store_after :: store
  printed :: "string list"

text \<open>
  The functions \<open>ParseDocument\<close> calls that this file does not define are parameters of the
  model. The methods of \<open>Parser\<close> from the package's other files are given the parser's
  fields and the tree they work on: \<open>unwrapNoscriptImages\<close>, \<open>removeScripts\<close> and
  \<open>prepDocument\<close> rewrite the tree at \<open>ps.doc\<close>; \<open>getJSONLD\<close> and \<open>getArticleMetadata\<close> read it
  and return a map (the error \<open>getJSONLD\<close> returns as well is discarded by the caller);
  \<open>grabArticle\<close> rewrites the tree and the parser's fields (flags, attempts, byline) and
  returns the container it built, or nil; \<open>postProcessContent\<close> rewrites that container.
  \<open>dom_Parse\<close> is \<open>dom.Parse\<close> (the error's message, or the tree), \<open>dom_InnerHTML\<close> is
  \<open>dom.InnerHTML\<close> (the serializer of \<open>x/net/html\<close>), and \<open>time_Parse layout value\<close> is
  \<open>time.Parse\<close>.

  What the model takes for granted about them: a method reaches no tree but the one it is
  handed (the clone has no parent, and the parser holds no other pointer to a document);
  each of them returns (a panic inside one is not modelled); and the map
  \<open>getArticleMetadata\<close> returns is not nil, so that line 85 can write to it.
\<close>

record ('r, 't) deps =
  dom_Parse :: "'r \<Rightarrow> string + html_Node"
  dom_InnerHTML :: "html_Node \<Rightarrow> string"
  time_Parse :: "string \<Rightarrow> string \<Rightarrow> string + 't"
  unwrapNoscriptImages :: "Parser \<Rightarrow> html_Node \<Rightarrow> html_Node"
  getJSONLD :: "Parser \<Rightarrow> html_Node \<Rightarrow> (string \<rightharpoonup> string)"
  removeScripts :: "Parser \<Rightarrow> html_Node \<Rightarrow> html_Node"
  prepDocument :: "Parser \<Rightarrow> html_Node \<Rightarrow> html_Node"
  getArticleMetadata :: "Parser \<Rightarrow> html_Node \<Rightarrow> (string \<rightharpoonup> string) \<Rightarrow> (string \<rightharpoonup> string)"
  grabArticle :: "Parser \<Rightarrow> html_Node \<Rightarrow> html_Node option \<times> Parser \<times> html_Node"
  postProcessContent :: "Parser \<Rightarrow> html_Node \<Rightarrow> html_Node"

text \<open>Reading a Go \<open>map[string]string\<close>: a key that is absent reads as the empty string.\<close>

definition getm :: "(string \<rightharpoonup> string) \<Rightarrow> string \<Rightarrow> string" where
  "getm m k = (case m k of None \<Rightarrow> [] | Some v \<Rightarrow> v)"

section \<open>Dates\<close>

text \<open>The layouts of \<open>getParsedDate\<close>, in the order of the source; the constants of package
  \<open>time\<close> (\<open>RFC822\<close> to \<open>ANSIC\<close>, the first nine) are written out.\<close>

definition formats :: "string list" where
  "formats = [
    ''02 Jan 06 15:04 MST'',
    ''02 Jan 06 15:04 -0700'',
    ''2006-01-02T15:04:05Z07:00'',
    ''Mon Jan _2 15:04:05 MST 2006'',
    ''Mon Jan 02 15:04:05 -0700 2006'',
    ''Monday, 02-Jan-06 15:04:05 MST'',
    ''Mon, 02 Jan 2006 15:04:05 -0700'',
    ''Mon, 02 Jan 2006 15:04:05 MST'',
    ''Mon Jan _2 15:04:05 2006'',
    ''Mon, January 2 2006 15:04:05 -0700'',
    ''Mon, January 02, 2006, 15:04:05 MST'',
    ''Mon, January 02, 2006 15:04:05 MST'',
    ''Mon, Jan 2, 2006 15:04 MST'',
    ''Mon, Jan 2 2006 15:04 MST'',
    ''Mon, Jan 2, 2006 15:04:05 MST'',
    ''Mon, Jan 2 2006 15:04:05 -700'',
    ''Mon, Jan 2 2006 15:04:05 -0700'',
    ''Mon Jan 2 15:04 2006'',
    ''Mon Jan 2 15:04:05 2006 MST'',
    ''Mon Jan 02, 2006 3:04 pm'',
    ''Mon, Jan 02,2006 15:04:05 MST'',
    ''Mon Jan 02 2006 15:04:05 -0700'',
    ''Monday, January 2, 2006 15:04:05 MST'',
    ''Monday, January 2, 2006 03:04 PM'',
    ''Monday, January 2, 2006'',
    ''Monday, January 02, 2006'',
    ''Monday, 2 January 2006 15:04:05 MST'',
    ''Monday, 2 January 2006 15:04:05 -0700'',
    ''Monday, 2 Jan 2006 15:04:05 MST'',
    ''Monday, 2 Jan 2006 15:04:05 -0700'',
    ''Monday, 02 January 2006 15:04:05 MST'',
    ''Monday, 02 January 2006 15:04:05 -0700'',
    ''Monday, 02 January 2006 15:04:05'',
    ''Mon, 2 January 2006 15:04 MST'',
    ''Mon, 2 January 2006, 15:04 -0700'',
    ''Mon, 2 January 2006, 15:04:05 MST'',
    ''Mon, 2 January 2006 15:04:05 MST'',
    ''Mon, 2 January 2006 15:04:05 -0700'',
    ''Mon, 2 January 2006'',
    ''Mon, 2 Jan 2006 3:04:05 PM -0700'',
    ''Mon, 2 Jan 2006 15:4:5 MST'',
    ''Mon, 2 Jan 2006 15:4:5 -0700 GMT'',
    ''Mon, 2, Jan 2006 15:4'',
    ''Mon, 2 Jan 2006 15:04 MST'',
    ''Mon, 2 Jan 2006, 15:04 -0700'',
    ''Mon, 2 Jan 2006 15:04 -0700'',
    ''Mon, 2 Jan 2006 15:04:05 UT'',
    ''Mon, 2 Jan 2006 15:04:05MST'',
    ''Mon, 2 Jan 2006 15:04:05 MST'',
    ''Mon 2 Jan 2006 15:04:05 MST'',
    ''mon,2 Jan 2006 15:04:05 MST'',
    ''Mon, 2 Jan 2006 15:04:05 -0700 MST'',
    ''Mon, 2 Jan 2006 15:04:05-0700'',
    ''Mon, 2 Jan 2006 15:04:05 -0700'',
    ''Mon, 2 Jan 2006 15:04:05'',
    ''Mon, 2 Jan 2006 15:04'',
    ''Mon,2 Jan 2006'',
    ''Mon, 2 Jan 2006'',
    ''Mon, 2 Jan 15:04:05 MST'',
    ''Mon, 2 Jan 06 15:04:05 MST'',
    ''Mon, 2 Jan 06 15:04:05 -0700'',
    ''Mon, 2006-01-02 15:04'',
    ''Mon,02 January 2006 14:04:05 MST'',
    ''Mon, 02 January 2006'',
    ''Mon, 02 Jan 2006 3:04:05 PM MST'',
    ''Mon, 02 Jan 2006 15 -0700'',
    ''Mon,02 Jan 2006 15:04 MST'',
    ''Mon, 02 Jan 2006 15:04 MST'',
    ''Mon, 02 Jan 2006 15:04 -0700'',
    ''Mon, 02 Jan 2006 15:04:05 Z'',
    ''Mon, 02 Jan 2006 15:04:05 UT'',
    ''Mon, 02 Jan 2006 15:04:05 MST-07:00'',
    ''Mon, 02 Jan 2006 15:04:05 MST -0700'',
    ''Mon, 02 Jan 2006, 15:04:05 MST'',
    ''Mon, 02 Jan 2006 15:04:05MST'',
    ''Mon, 02 Jan 2006 15:04:05 MST'',
    ''Mon , 02 Jan 2006 15:04:05 MST'',
    ''Mon, 02 Jan 2006 15:04:05 GMT-0700'',
    ''Mon,02 Jan 2006 15:04:05 -0700'',
    ''Mon, 02 Jan 2006 15:04:05 -0700'',
    ''Mon, 02 Jan 2006 15:04:05 -07:00'',
    ''Mon, 02 Jan 2006 15:04:05 --0700'',
    ''Mon 02 Jan 2006 15:04:05 -0700'',
    ''Mon, 02 Jan 2006 15:04:05 -07'',
    ''Mon, 02 Jan 2006 15:04:05 00'',
    ''Mon, 02 Jan 2006 15:04:05'',
    ''Mon, 02 Jan 2006'',
    ''Mon, 02 Jan 06 15:04:05 MST'',
    ''January 2, 2006 3:04 PM'',
    ''January 2, 2006, 3:04 p.m.'',
    ''January 2, 2006 15:04:05 MST'',
    ''January 2, 2006 15:04:05'',
    ''January 2, 2006 03:04 PM'',
    ''January 2, 2006'',
    ''January 02, 2006 15:04:05 MST'',
    ''January 02, 2006 15:04'',
    ''January 02, 2006 03:04 PM'',
    ''January 02, 2006'',
    ''Jan 2, 2006 3:04:05 PM MST'',
    ''Jan 2, 2006 3:04:05 PM'',
    ''Jan 2, 2006 15:04:05 MST'',
    ''Jan 2, 2006'',
    ''Jan 02 2006 03:04:05PM'',
    ''Jan 02, 2006'',
    ''6/1/2 15:04'',
    ''6-1-2 15:04'',
    ''2 January 2006 15:04:05 MST'',
    ''2 January 2006 15:04:05 -0700'',
    ''2 January 2006'',
    ''2 Jan 2006 15:04:05 Z'',
    ''2 Jan 2006 15:04:05 MST'',
    ''2 Jan 2006 15:04:05 -0700'',
    ''2 Jan 2006'',
    ''2.1.2006 15:04:05'',
    ''2/1/2006'',
    ''2-1-2006'',
    ''2006 January 02'',
    ''2006-1-2T15:04:05Z'',
    ''2006-1-2 15:04:05'',
    ''2006-1-2'',
    ''2006-1-02T15:04:05Z'',
    ''2006-01-02T15:04Z'',
    ''2006-01-02T15:04-07:00'',
    ''2006-01-02T15:04:05Z'',
    ''2006-01-02T15:04:05-07:00:00'',
    ''2006-01-02T15:04:05:-0700'',
    ''2006-01-02T15:04:05-0700'',
    ''2006-01-02T15:04:05-07:00'',
    ''2006-01-02T15:04:05 -0700'',
    ''2006-01-02T15:04:05:00'',
    ''2006-01-02T15:04:05'',
    ''2006-01-02 at 15:04:05'',
    ''2006-01-02 15:04:05Z'',
    ''2006-01-02 15:04:05 MST'',
    ''2006-01-02 15:04:05-0700'',
    ''2006-01-02 15:04:05-07:00'',
    ''2006-01-02 15:04:05 -0700'',
    ''2006-01-02 15:04'',
    ''2006-01-02 00:00:00.0 15:04:05.0 -0700'',
    ''2006/01/02'',
    ''2006-01-02'',
    ''15:04 02.01.2006 -0700'',
    ''1/2/2006 3:04:05 PM MST'',
    ''1/2/2006 3:04:05 PM'',
    ''1/2/2006 15:04:05 MST'',
    ''1/2/2006'',
    ''06/1/2 15:04'',
    ''06-1-2 15:04'',
    ''02 Monday, Jan 2006 15:04'',
    ''02 Jan 2006 15:04 MST'',
    ''02 Jan 2006 15:04:05 UT'',
    ''02 Jan 2006 15:04:05 MST'',
    ''02 Jan 2006 15:04:05 -0700'',
    ''02 Jan 2006 15:04:05'',
    ''02 Jan 2006'',
    ''02/01/2006 15:04 MST'',
    ''02-01-2006 15:04:05 MST'',
    ''02.01.2006 15:04:05'',
    ''02/01/2006 15:04:05'',
    ''02.01.2006 15:04'',
    ''02/01/2006 - 15:04'',
    ''02.01.2006 -0700'',
    ''02/01/2006'',
    ''02-01-2006'',
    ''01/02/2006 3:04 PM'',
    ''01/02/2006 15:04:05 MST'',
    ''01/02/2006 - 15:04'',
    ''01/02/2006'',
    ''01-02-2006''
   ]"

text \<open>
  The loop of \<open>getParsedDate\<close> over the layouts still to try: the first layout that
  \<open>time.Parse\<close> accepts gives the result; when the last one fails too the function prints
  one line and returns nil. The second component is what was printed.
\<close>

definition failureLine :: "string \<Rightarrow> string" where
  "failureLine dateStr =
     ''Failed to parse date '' @ [CHR 0x22] @ dateStr @ [CHR 0x22, CHR 0x0A]"

fun tryFormats :: "(string \<Rightarrow> string \<Rightarrow> string + 't) \<Rightarrow> string \<Rightarrow> string list \<Rightarrow> 't option \<times> string list" where
  "tryFormats parse dateStr [] = (None, [])"
| "tryFormats parse dateStr (format # rest) =
     (case parse format dateStr of
        Inr parsedDate \<Rightarrow> (Some parsedDate, [])
      | Inl err \<Rightarrow>
          if rest = []
          then (None, [failureLine dateStr])
          else tryFormats parse dateStr rest)"

definition getParsedDate :: "(string \<Rightarrow> string \<Rightarrow> string + 't) \<Rightarrow> string \<Rightarrow> 't option \<times> string list" where
  "getParsedDate parse dateStr = tryFormats parse dateStr formats"

text \<open>
  The specification's words for the same: the first layout of the list that the date
  string matches, a match being a \<open>time.Parse\<close> that returns no error.
\<close>

definition firstMatch :: "(string \<Rightarrow> string \<Rightarrow> string + 't) \<Rightarrow> string \<Rightarrow> string option" where
  "firstMatch parse dateStr = find (\<lambda>layout. \<not> isl (parse layout dateStr)) formats"

definition getDate :: "('r, 't) deps \<Rightarrow> (string \<rightharpoonup> string) \<Rightarrow> string \<Rightarrow> 't option \<times> string list" where
  "getDate D metadata fieldName =
     (case metadata fieldName of
        Some dateStr \<Rightarrow> if 0 < length dateStr then getParsedDate (time_Parse D) dateStr else (None, [])
      | None \<Rightarrow> (None, []))"

section \<open>\<open>ParseDocument\<close> and \<open>Parse\<close>\<close>

text \<open>Lines 28 to 41: the parser takes the clone and forgets the call before.\<close>

definition resetParser :: "Parser \<Rightarrow> addr \<Rightarrow> URL option \<Rightarrow> Parser" where
  "resetParser ps c pageURL =
     ps\<lparr>doc := c,
        articleTitle := [], articleByline := [], articleDir := [], articleSiteName := [],
        documentURI := pageURL,
        attempts := [],
        flags := \<lparr>stripUnlikelys = True, useWeightClasses = True, cleanConditionally = True\<rparr>\<rparr>"

text \<open>
  Lines 51 to 67: the tree at \<open>ps.doc\<close> is prepared in place and the metadata are read
  from it.
\<close>

definition prepare :: "('r, 't) deps \<Rightarrow> Parser \<Rightarrow> store \<Rightarrow> (string \<rightharpoonup> string) \<times> store" where
  "prepare D ps h =
     (let h1 = h[doc ps := unwrapNoscriptImages D ps (h ! doc ps)];
          jsonLd = (if \<not> DisableJSONLD ps then getJSONLD D ps (h1 ! doc ps) else Map.empty);
          h2 = h1[doc ps := removeScripts D ps (h1 ! doc ps)];
          h3 = h2[doc ps := prepDocument D ps (h2 ! doc ps)];
          metadata = getArticleMetadata D ps (h3 ! doc ps) jsonLd
      in (metadata, h3))"

text \<open>
  Lines 71 to 93: what is read off the container \<open>grabArticle\<close> returned. The result is
  the metadata (with the excerpt of the first paragraph, if they had none),
  \<open>readableNode\<close>, \<open>finalHTMLContent\<close> and \<open>finalTextContent\<close>.
\<close>

definition readable ::
  "('r, 't) deps \<Rightarrow> Parser \<Rightarrow> (string \<rightharpoonup> string) \<Rightarrow> html_Node option
     \<Rightarrow> (string \<rightharpoonup> string) \<times> html_Node option \<times> string \<times> string" where
  "readable D ps metadata grabbed =
     (case grabbed of
        None \<Rightarrow> (metadata, None, [], [])
      | Some ac0 \<Rightarrow>
          let ac = postProcessContent D ps ac0;
              metadata' =
                (if getm metadata ''excerpt'' = []
                 then (case dom_GetElementsByTagName ac ''p'' of
                         [] \<Rightarrow> metadata
                       | p # ps' \<Rightarrow>
                           metadata(''excerpt'' \<mapsto> strings_TrimSpace (dom_TextContent p)))
                 else metadata)
          in (metadata', dom_FirstElementChild ac, dom_InnerHTML D ac,
              strings_TrimSpace (dom_TextContent ac)))"

text \<open>Lines 95 to 133: the article is assembled.\<close>

definition assemble ::
  "('r, 't) deps \<Rightarrow> Parser \<Rightarrow> URL option \<Rightarrow> (string \<rightharpoonup> string) \<Rightarrow> html_Node option \<Rightarrow> string \<Rightarrow> string
     \<Rightarrow> 't Article \<times> string list" where
  "assemble D ps pageURL metadata readableNode finalHTMLContent finalTextContent =
     (let finalByline =
            (if getm metadata ''byline'' = [] then articleByline ps else getm metadata ''byline'');
          excerpt = strings_TrimSpace (getm metadata ''excerpt'');
          excerpt = strings_Join (strings_Fields excerpt) '' '';
          replacementTitle = (case pageURL of None \<Rightarrow> [] | Some u \<Rightarrow> url_String u);
          validTitle = strings_ToValidUTF8 (articleTitle ps) replacementTitle;
          validByline = strings_ToValidUTF8 finalByline [];
          validExcerpt = strings_ToValidUTF8 excerpt [];
          datePublished = getDate D metadata ''datePublished'';
          dateModified = getDate D metadata ''dataModified''
      in (\<lparr>Title = validTitle,
           Byline = validByline,
           Node = readableNode,
           Content = finalHTMLContent,
           TextContent = finalTextContent,
           Length = charCount finalTextContent,
           Excerpt = validExcerpt,
           SiteName = getm metadata ''siteName'',
           Image = getm metadata ''image'',
           Favicon = getm metadata ''favicon'',
           PublishedTime = fst datePublished,
           ModifiedTime = fst dateModified\<rparr>,
          snd datePublished @ snd dateModified))"

text \<open>
  Lines 51 to 73: the document is prepared, the title is taken from the metadata and
  \<open>grabArticle\<close> runs on the tree at \<open>ps.doc\<close>. The result is the metadata, the container
  \<open>grabArticle\<close> returned (\<open>None\<close> for nil), the parser's fields and the store after it.
\<close>

definition grab ::
  "('r, 't) deps \<Rightarrow> Parser \<Rightarrow> store
     \<Rightarrow> (string \<rightharpoonup> string) \<times> html_Node option \<times> Parser \<times> store" where
  "grab D ps h =
     (let (metadata, h1) = prepare D ps h;
          ps1 = ps\<lparr>articleTitle := getm metadata ''title''\<rparr>;
          (grabbed, ps2, t) = grabArticle D ps1 (h1 ! doc ps1)
      in (metadata, grabbed, ps2, h1[doc ps1 := t]))"

text \<open>Lines 51 to 133, from the parser after the reset and the size check.\<close>

definition extractArticle :: "('r, 't) deps \<Rightarrow> Parser \<Rightarrow> store \<Rightarrow> URL option \<Rightarrow> 't outcome" where
  "extractArticle D ps h pageURL =
     (let (metadata0, grabbed, ps2, h2) = grab D ps h;
          (metadata, readableNode, finalHTMLContent, finalTextContent) =
             readable D ps2 metadata0 grabbed;
          (article, out) =
             assemble D ps2 pageURL metadata readableNode finalHTMLContent finalTextContent
      in \<lparr>ret_Article = article, ret_error = None, ps_after = ps2, store_after = h2,
          printed = out\<rparr>)"

text \<open>
  \<open>ParseDocument(doc, pageURL)\<close>. The document is a pointer: \<open>None\<close> is nil, on which
  \<open>dom.Clone\<close> panics before anything is written; the model's answer to a panic (and to an
  address that names no tree, which Go cannot produce) is \<open>None\<close>. The clone is a new
  tree at a new address.
\<close>

definition ParseDocument ::
  "('r, 't) deps \<Rightarrow> Parser \<Rightarrow> store \<Rightarrow> addr option \<Rightarrow> URL option \<Rightarrow> 't outcome option" where
  "ParseDocument D ps0 h0 docp pageURL =
     (case docp of
        None \<Rightarrow> None
      | Some a \<Rightarrow>
          if length h0 \<le> a then None
          else
            let h1 = h0 @ [dom_Clone (h0 ! a)];
                ps = resetParser ps0 (length h0) pageURL;
                numTags = int (length (dom_GetElementsByTagName (h1 ! doc ps) ''*''))
            in if 0 < MaxElemsToParse ps \<and> MaxElemsToParse ps < numTags
               then Some \<lparr>ret_Article = Article_zero,
                          ret_error = Some (DocumentsTooLarge numTags),
                          ps_after = ps, store_after = h1, printed = []\<rparr>
               else Some (extractArticle D ps h1 pageURL))"

text \<open>
  \<open>Parse(input, pageURL)\<close>: the tree \<open>dom.Parse\<close> builds is new in the store; when it fails
  nothing else has happened.
\<close>

definition Parse ::
  "('r, 't) deps \<Rightarrow> Parser \<Rightarrow> store \<Rightarrow> 'r \<Rightarrow> URL option \<Rightarrow> 't outcome option" where
  "Parse D ps h input pageURL =
     (case dom_Parse D input of
        Inl err \<Rightarrow>
          Some \<lparr>ret_Article = Article_zero, ret_error = Some (FailedToParseInput err),
                ps_after = ps, store_after = h, printed = []\<rparr>
      | Inr t \<Rightarrow> ParseDocument D ps (h @ [t]) (Some (length h)) pageURL)"

text \<open>
  Two names for the statements below. \<open>tooLarge\<close> is the test of lines 44 to 46 on the
  caller's document (the clone has the same elements). \<open>grabbedFor\<close> is what lines 51
  to 73 compute in a call of \<open>ParseDocument\<close> that passes the size check: the metadata,
  the container or nil, the parser's fields and the store.
\<close>

definition tooLarge :: "Parser \<Rightarrow> html_Node \<Rightarrow> bool" where
  "tooLarge ps t =
     (0 < MaxElemsToParse ps
      \<and> MaxElemsToParse ps < int (length (dom_GetElementsByTagName t ''*'')))"

definition grabbedFor ::
  "('r, 't) deps \<Rightarrow> Parser \<Rightarrow> store \<Rightarrow> addr \<Rightarrow> URL option
     \<Rightarrow> (string \<rightharpoonup> string) \<times> html_Node option \<times> Parser \<times> store" where
  "grabbedFor D ps h a pageURL =
     grab D (resetParser ps (length h) pageURL) (h @ [dom_Clone (h ! a)])"

section \<open>An instance for evaluation\<close>

text \<open>
  The theorems below hold for every choice of the parameters. To run the model, and to
  show that the hypotheses of the theorems can be met, this section fixes one: a
  serializer for elements and text, a date parser that knows a single layout, a
  \<open>removeScripts\<close> that drops the script elements, and a \<open>grabArticle\<close> that takes the
  children of the body as the article and names an author.
\<close>

definition text_node :: "string \<Rightarrow> html_Node" where
  "text_node s = Html_Node TextNode s [] []"

definition element :: "string \<Rightarrow> html_Node list \<Rightarrow> html_Node" where
  "element tag cs = Html_Node ElementNode tag [] cs"

definition page :: "html_Node list \<Rightarrow> html_Node" where
  "page body =
     Html_Node DocumentNode [] []
       [element ''html''
          [element ''head'' [element ''title'' [text_node ''A page'']],
           element ''body'' body]]"

definition renderAttr :: "Attribute \<Rightarrow> string" where
  "renderAttr a = '' '' @ attr_Key a @ ''='' @ [CHR 0x22] @ attr_Val a @ [CHR 0x22]"

definition voidElements :: "string list" where
  "voidElements =
     [''area'', ''base'', ''br'', ''col'', ''embed'', ''hr'', ''img'', ''input'', ''keygen'',
      ''link'', ''meta'', ''param'', ''source'', ''track'', ''wbr'']"

fun renderNode :: "html_Node \<Rightarrow> string" where
  "renderNode (Html_Node ty d a cs) =
     (if ty = TextNode then d
      else if ty = ElementNode
      then (if d \<in> set voidElements \<and> cs = []
            then ''<'' @ d @ concat (map renderAttr a) @ ''/>''
            else ''<'' @ d @ concat (map renderAttr a) @ ''>'' @ concat (map renderNode cs)
                   @ ''</'' @ d @ ''>'')
      else [])"

definition renderChildren :: "html_Node \<Rightarrow> string" where
  "renderChildren n = concat (map renderNode (node_Children n))"

fun dropTag :: "string \<Rightarrow> html_Node \<Rightarrow> html_Node" where
  "dropTag tag (Html_Node ty d a cs) =
     Html_Node ty d a
       (map (dropTag tag)
          (filter (\<lambda>c. \<not> (node_Type c = ElementNode \<and> node_Data c = tag)) cs))"

definition digit :: "char \<Rightarrow> bool" where
  "digit c = (48 \<le> byte c \<and> byte c \<le> 57)"

definition num :: "string \<Rightarrow> nat" where
  "num ds = foldl (\<lambda>n c. 10 * n + (byte c - 48)) 0 ds"

definition daysIn :: "nat \<Rightarrow> nat \<Rightarrow> nat" where
  "daysIn y m =
     (if m = 2 then (if y mod 4 = 0 \<and> (y mod 100 \<noteq> 0 \<or> y mod 400 = 0) then 29 else 28)
      else if m = 4 \<or> m = 6 \<or> m = 9 \<or> m = 11 then 30 else 31)"

text \<open>A date parser that accepts the layout \<open>2006-01-02\<close> and no other: year, month, day.\<close>

definition oneLayoutParse :: "string \<Rightarrow> string \<Rightarrow> string + (nat \<times> nat \<times> nat)" where
  "oneLayoutParse layout v =
     (if layout = ''2006-01-02'' \<and> length v = 10
         \<and> list_all digit (take 4 v) \<and> take 1 (drop 4 v) = ''-''
         \<and> list_all digit (take 2 (drop 5 v)) \<and> take 1 (drop 7 v) = ''-''
         \<and> list_all digit (drop 8 v)
         \<and> 1 \<le> num (take 2 (drop 5 v)) \<and> num (take 2 (drop 5 v)) \<le> 12
         \<and> 1 \<le> num (drop 8 v)
         \<and> num (drop 8 v) \<le> daysIn (num (take 4 v)) (num (take 2 (drop 5 v)))
      then Inr (num (take 4 v), num (take 2 (drop 5 v)), num (drop 8 v))
      else Inl ''cannot parse'')"

definition wrapBody :: "Parser \<Rightarrow> html_Node \<Rightarrow> html_Node option \<times> Parser \<times> html_Node" where
  "wrapBody ps t =
     (case dom_GetElementsByTagName t ''body'' of
        [] \<Rightarrow> (None, ps, t)
      | b # bs \<Rightarrow>
          if node_Children b = [] then (None, ps, t)
          else (Some (element ''div''
                  [Html_Node ElementNode ''div''
                     [\<lparr>attr_Namespace = [], attr_Key = ''id'',
                       attr_Val = ''readability-page-1''\<rparr>]
                     (node_Children b)]),
                ps\<lparr>articleByline := ''A. Writer''\<rparr>, dropTag ''body'' t))"

definition fixture ::
  "(string \<rightharpoonup> string) \<Rightarrow> (string option, nat \<times> nat \<times> nat) deps" where
  "fixture md =
     \<lparr>dom_Parse =
        (\<lambda>r. case r of
                None \<Rightarrow> Inl ''unexpected EOF''
              | Some s \<Rightarrow> Inr (page [element ''p'' [text_node s]])),
      dom_InnerHTML = renderChildren,
      time_Parse = oneLayoutParse,
      unwrapNoscriptImages = (\<lambda>ps t. t),
      getJSONLD = (\<lambda>ps t. Map.empty),
      removeScripts = (\<lambda>ps t. dropTag ''script'' t),
      prepDocument = (\<lambda>ps t. t),
      getArticleMetadata = (\<lambda>ps t jsonLd. md ++ jsonLd),
      grabArticle = wrapBody,
      postProcessContent = (\<lambda>ps t. t)\<rparr>"

text \<open>A parser as an earlier call may have left it: flags relaxed, an attempt recorded.\<close>

definition usedParser :: "int \<Rightarrow> Parser" where
  "usedParser limit =
     \<lparr>MaxElemsToParse = limit, DisableJSONLD = False, doc = 0, documentURI = None,
      articleTitle = ''old title'', articleByline = ''old byline'', articleDir = [],
      articleSiteName = [],
      attempts = [\<lparr>articleContent = text_node ''old'', textLength = 3\<rparr>],
      flags = \<lparr>stripUnlikelys = False, useWeightClasses = False,
               cleanConditionally = False\<rparr>\<rparr>"

definition someMetadata :: "string \<rightharpoonup> string" where
  "someMetadata =
     [''title'' \<mapsto> ''A page'', ''siteName'' \<mapsto> ''Example'',
      ''datePublished'' \<mapsto> ''2020-02-29'', ''dateModified'' \<mapsto> ''2021-03-04'']"

text \<open>A page with a script and two paragraphs (seven elements), and a page with no body
  content.\<close>

definition twoParagraphs :: html_Node where
  "twoParagraphs =
     page [element ''script'' [text_node ''x = 1''],
           element ''p'' [text_node ''  Hello  world ''],
           element ''p'' [text_node ''second'']]"

definition emptyPage :: html_Node where
  "emptyPage = page []"

text \<open>A page whose body is one image, and metadata with ill-formed bytes: a title that is
  a lone lead byte and a byline with the byte \<open>0xFF\<close> in it.\<close>

definition imageOnly :: html_Node where
  "imageOnly = page [element ''img'' []]"

definition brokenMetadata :: "string \<rightharpoonup> string" where
  "brokenMetadata =
     [''title'' \<mapsto> [CHR 0xC3], ''byline'' \<mapsto> ''Jo'' @ [CHR 0xFF, CHR 0xFE] @ ''e'',
      ''excerpt'' \<mapsto> '' a '' @ [CHR 0x80] @ '' summary  '']"

text \<open>What the instance's \<open>grabArticle\<close> returns for a body with the children \<open>cs\<close>, and
  what it leaves of the page.\<close>

definition container :: "html_Node list \<Rightarrow> html_Node" where
  "container cs =
     element ''div''
       [Html_Node ElementNode ''div''
          [\<lparr>attr_Namespace = [], attr_Key = ''id'', attr_Val = ''readability-page-1''\<rparr>] cs]"

definition headOnly :: html_Node where
  "headOnly =
     Html_Node DocumentNode [] []
       [element ''html'' [element ''head'' [element ''title'' [text_node ''A page'']]]]"

definition pageURL0 :: "URL option" where
  "pageURL0 = Some (URL ''http://example.org/a'')"


section \<open>Facts about the string functions\<close>

lemma decode_ascii: "byte c < 0x80 \<Longrightarrow> utf8_DecodeRuneInString (c # cs) = (byte c, 1)"
  by (simp add: utf8_DecodeRuneInString_def)

lemma decode2_ext:
  "snd (decode2 s0 cs) \<noteq> 1 \<Longrightarrow>
   decode2 s0 (take 1 cs @ t) = decode2 s0 cs \<and> snd (decode2 s0 cs) = 2"
  by (cases "(s0, cs)" rule: decode2.cases) (auto split: if_splits)

lemma decode3_ext:
  "snd (decode3 s0 cs) \<noteq> 1 \<Longrightarrow>
   decode3 s0 (take 2 cs @ t) = decode3 s0 cs \<and> snd (decode3 s0 cs) = 3"
  by (cases "(s0, cs)" rule: decode3.cases) (auto split: if_splits)

lemma decode4_ext:
  "snd (decode4 s0 cs) \<noteq> 1 \<Longrightarrow>
   decode4 s0 (take 3 cs @ t) = decode4 s0 cs \<and> snd (decode4 s0 cs) = 4"
  by (cases "(s0, cs)" rule: decode4.cases) (auto split: if_splits)

text \<open>The string starts with a well-formed encoding: the test \<open>ToValidUTF8\<close> and
  \<open>ValidString\<close> make at every position.\<close>

definition wellFormedHead :: "string \<Rightarrow> bool" where
  "wellFormedHead s =
     (s \<noteq> [] \<and> \<not> (0x80 \<le> byte (hd s) \<and> snd (utf8_DecodeRuneInString s) = 1))"

text \<open>A well-formed encoding decodes the same whatever follows it.\<close>

lemma decode_take:
  assumes "wellFormedHead s"
  shows "utf8_DecodeRuneInString (take (snd (utf8_DecodeRuneInString s)) s @ t)
           = utf8_DecodeRuneInString s"
proof -
  obtain c0 cs where s: "s = c0 # cs" using assms by (cases s) (auto simp: wellFormedHead_def)
  consider (a) "byte c0 < 0x80"
    | (x) "0x80 \<le> byte c0" "byte c0 < 0xC2 \<or> 0xF4 < byte c0"
    | (b) "0xC2 \<le> byte c0" "byte c0 < 0xE0"
    | (c) "0xE0 \<le> byte c0" "byte c0 < 0xF0"
    | (d) "0xF0 \<le> byte c0" "byte c0 \<le> 0xF4"
    by linarith
  then show ?thesis
  proof cases
    case a
    then show ?thesis by (simp add: s utf8_DecodeRuneInString_def)
  next
    case x
    then have "snd (utf8_DecodeRuneInString s) = 1"
      by (auto simp: s utf8_DecodeRuneInString_def)
    with assms x show ?thesis by (simp add: wellFormedHead_def s)
  next
    case b
    then have d: "utf8_DecodeRuneInString (c0 # u) = decode2 (byte c0) u" for u
      by (simp add: utf8_DecodeRuneInString_def)
    have "snd (decode2 (byte c0) cs) \<noteq> 1"
      using assms b by (simp add: wellFormedHead_def s d)
    from decode2_ext [OF this, of t] show ?thesis by (simp add: s d)
  next
    case c
    then have d: "utf8_DecodeRuneInString (c0 # u) = decode3 (byte c0) u" for u
      by (simp add: utf8_DecodeRuneInString_def)
    have "snd (decode3 (byte c0) cs) \<noteq> 1"
      using assms c by (simp add: wellFormedHead_def s d)
    from decode3_ext [OF this, of t] show ?thesis by (simp add: s d)
  next
    case d
    then have d': "utf8_DecodeRuneInString (c0 # u) = decode4 (byte c0) u" for u
      by (simp add: utf8_DecodeRuneInString_def)
    have "snd (decode4 (byte c0) cs) \<noteq> 1"
      using assms d by (simp add: wellFormedHead_def s d')
    from decode4_ext [OF this, of t] show ?thesis by (simp add: s d')
  qed
qed

lemma decode_append:
  assumes "wellFormedHead s"
  shows "utf8_DecodeRuneInString (s @ t) = utf8_DecodeRuneInString s"
proof -
  let ?w = "snd (utf8_DecodeRuneInString s)"
  have "take ?w s @ (drop ?w s @ t) = s @ t"
    by (simp only: append_assoc [symmetric] append_take_drop_id)
  then show ?thesis using decode_take [OF assms, of "drop ?w s @ t"] by (simp only:)
qed

lemma valid_Nil [simp]: "utf8_ValidString []"
  by (subst utf8_ValidString.simps) simp

lemma valid_step:
  "s \<noteq> [] \<Longrightarrow> utf8_ValidString s =
     (wellFormedHead s \<and> utf8_ValidString (drop (snd (utf8_DecodeRuneInString s)) s))"
  by (subst utf8_ValidString.simps) (auto simp: wellFormedHead_def)

lemma valid_append:
  "utf8_ValidString a \<Longrightarrow> utf8_ValidString b \<Longrightarrow> utf8_ValidString (a @ b)"
proof (induction a rule: utf8_ValidString.induct)
  case (1 s)
  show ?case
  proof (cases "s = []")
    case True
    then show ?thesis using "1.prems" by simp
  next
    case False
    let ?w = "snd (utf8_DecodeRuneInString s)"
    from False "1.prems"(1) have wf: "wellFormedHead s" and rest: "utf8_ValidString (drop ?w s)"
      by (simp_all add: valid_step)
    have nf: "\<not> (0x80 \<le> byte (hd s) \<and> ?w = 1)" using wf by (simp add: wellFormedHead_def)
    have ih: "utf8_ValidString (drop ?w s @ b)"
      using "1.IH" [OF False nf rest "1.prems"(2)] .
    have dec: "utf8_DecodeRuneInString (s @ b) = utf8_DecodeRuneInString s"
      by (rule decode_append [OF wf])
    have "wellFormedHead (s @ b)"
      using wf False by (simp add: wellFormedHead_def dec)
    moreover have "drop ?w (s @ b) = drop ?w s @ b"
      using width_le [of s] by simp
    ultimately show ?thesis using ih False by (simp add: valid_step dec)
  qed
qed

text \<open>What \<open>ToValidUTF8\<close> returns is well-formed when the replacement is.\<close>

lemma toValid_valid:
  "utf8_ValidString replacement \<Longrightarrow> utf8_ValidString (toValidLoop replacement invalid s)"
proof (induction replacement invalid s rule: toValidLoop.induct)
  case (1 replacement invalid s)
  show ?case
  proof (cases "s = []")
    case True
    then show ?thesis by (subst toValidLoop.simps) simp
  next
    case ne: False
    let ?w = "snd (utf8_DecodeRuneInString s)"
    show ?thesis
    proof (cases "byte (hd s) < 0x80")
      case True
      have ih: "utf8_ValidString (toValidLoop replacement False (tl s))"
        using "1.IH"(1) [OF ne True "1.prems"] .
      have "utf8_ValidString ([hd s] @ toValidLoop replacement False (tl s))"
      proof (rule valid_append [OF _ ih])
        show "utf8_ValidString [hd s]"
          using True by (simp add: valid_step wellFormedHead_def decode_ascii)
      qed
      then show ?thesis using ne True by (subst toValidLoop.simps) simp
    next
      case hi: False
      show ?thesis
      proof (cases "?w = 1")
        case True
        have ih: "utf8_ValidString (toValidLoop replacement True (tl s))"
          using "1.IH"(2) [OF ne hi True "1.prems"] .
        have "utf8_ValidString
                ((if invalid then [] else replacement) @ toValidLoop replacement True (tl s))"
          by (rule valid_append [OF _ ih]) (simp add: "1.prems")
        then show ?thesis using ne hi True by (subst toValidLoop.simps) simp
      next
        case False
        have ih: "utf8_ValidString (toValidLoop replacement False (drop ?w s))"
          using "1.IH"(3) [OF ne hi False "1.prems"] .
        have wf: "wellFormedHead s" using ne False by (simp add: wellFormedHead_def)
        have len: "length (take ?w s) = ?w" using width_le [of s] by simp
        have dec: "utf8_DecodeRuneInString (take ?w s @ []) = utf8_DecodeRuneInString s"
          by (rule decode_take [OF wf])
        have tne: "take ?w s \<noteq> []" using ne width_pos [of s] by (cases s) auto
        have hd_eq: "hd (take ?w s) = hd s" using ne width_pos [of s] by (cases s) auto
        have "utf8_ValidString (take ?w s)"
          using dec tne wf len hd_eq by (simp add: valid_step [OF tne] wellFormedHead_def)
        from valid_append [OF this ih]
        show ?thesis using ne hi False by (subst toValidLoop.simps) simp
      qed
    qed
  qed
qed

text \<open>A well-formed string passes through \<open>ToValidUTF8\<close> as it is.\<close>

lemma toValid_unchanged:
  "utf8_ValidString s \<Longrightarrow> toValidLoop replacement invalid s = s"
proof (induction replacement invalid s rule: toValidLoop.induct)
  case (1 replacement invalid s)
  show ?case
  proof (cases "s = []")
    case True
    then show ?thesis by (subst toValidLoop.simps) simp
  next
    case ne: False
    let ?w = "snd (utf8_DecodeRuneInString s)"
    from ne "1.prems" have wf: "wellFormedHead s" and rest: "utf8_ValidString (drop ?w s)"
      by (simp_all add: valid_step)
    show ?thesis
    proof (cases "byte (hd s) < 0x80")
      case True
      then have w1: "?w = 1" using ne by (cases s) (simp_all add: decode_ascii)
      have "toValidLoop replacement False (tl s) = tl s"
        using "1.IH"(1) [OF ne True] rest w1 by (simp add: drop_Suc)
      then show ?thesis using ne True by (subst toValidLoop.simps) simp
    next
      case hi: False
      then have nw: "?w \<noteq> 1" using wf by (simp add: wellFormedHead_def)
      have "toValidLoop replacement False (drop ?w s) = drop ?w s"
        using "1.IH"(3) [OF ne hi nw rest] .
      then show ?thesis using ne hi nw by (subst toValidLoop.simps) simp
    qed
  qed
qed

lemma runeCount_zero: "utf8_RuneCountInString s = 0 \<longleftrightarrow> s = []"
  by (subst utf8_RuneCountInString.simps) simp

lemma charCount_zero: "charCount s = 0 \<longleftrightarrow> s = []"
  by (simp add: charCount_def runeCount_zero)

lemma ToValidUTF8_valid:
  "utf8_ValidString replacement \<Longrightarrow> utf8_ValidString (strings_ToValidUTF8 s replacement)"
  by (simp add: strings_ToValidUTF8_def toValid_valid)

lemma ToValidUTF8_unchanged:
  "utf8_ValidString s \<Longrightarrow> strings_ToValidUTF8 s replacement = s"
  by (simp add: strings_ToValidUTF8_def toValid_unchanged)

text \<open>The equations that run the string functions on a literal.\<close>

lemmas utf8_eval =
  byte_def utf8_DecodeRuneInString_def utf8_DecodeLastRuneInString_def unicode_IsSpace_def
  RuneError_def cont_def second_ok_def acceptRange_def utf8_RuneStart_def Let_def

lemmas strings_eval =
  strings_ToValidUTF8_def toValidLoop.simps strings_TrimSpace_def TrimLeftSpace.simps
  TrimRightSpace_def lastIndexNotSpace.simps backScan.simps strings_Fields_def fieldsLoop.simps
  utf8_ValidString.simps utf8_eval

section \<open>Facts about the model\<close>

lemma dom_Clone_id [simp]: "dom_Clone n = n"
  by (induction n) (simp add: map_idI)

lemma resetParser_fields [simp]:
  "doc (resetParser ps c u) = c"
  "MaxElemsToParse (resetParser ps c u) = MaxElemsToParse ps"
  "DisableJSONLD (resetParser ps c u) = DisableJSONLD ps"
  "flags (resetParser ps c u) =
     \<lparr>stripUnlikelys = True, useWeightClasses = True, cleanConditionally = True\<rparr>"
  "attempts (resetParser ps c u) = []"
  by (simp_all add: resetParser_def)

text \<open>A call on a document that exists either stops at the size check or runs lines 51
  to 133 on the clone.\<close>

lemma ParseDocument_Some:
  "a < length h \<Longrightarrow>
   ParseDocument D ps h (Some a) u =
     (if tooLarge ps (h ! a)
      then Some \<lparr>ret_Article = Article_zero,
                 ret_error = Some (DocumentsTooLarge
                               (int (length (dom_GetElementsByTagName (h ! a) ''*'')))),
                 ps_after = resetParser ps (length h) u, store_after = h @ [h ! a],
                 printed = []\<rparr>
      else Some (extractArticle D (resetParser ps (length h) u) (h @ [h ! a]) u))"
  by (simp add: ParseDocument_def tooLarge_def Let_def)

lemma prepare_store: "doc ps = length h \<Longrightarrow> \<exists>c'. snd (prepare D ps (h @ [c])) = h @ [c']"
  by (simp add: prepare_def Let_def)

lemma grab_store:
  assumes "doc ps = length h"
  shows "\<exists>c'. snd (snd (snd (grab D ps (h @ [c])))) = h @ [c']"
proof -
  obtain c' where c': "snd (prepare D ps (h @ [c])) = h @ [c']"
    using prepare_store [OF assms] by blast
  show ?thesis
    using assms c' by (auto simp: grab_def Let_def split: prod.splits)
qed

lemma extract_store: "store_after (extractArticle D ps h u) = snd (snd (snd (grab D ps h)))"
  by (simp add: extractArticle_def Let_def split: prod.splits)

lemma extract_error [simp]: "ret_error (extractArticle D ps h u) = None"
  by (simp add: extractArticle_def Let_def split: prod.splits)

lemma ParseDocument_error:
  assumes "ParseDocument D ps h docp u = Some r" and "ret_error r \<noteq> None"
  shows "ret_Article r = Article_zero \<and> (\<exists>n. ret_error r = Some (DocumentsTooLarge n))"
proof (cases docp)
  case None
  with assms show ?thesis by (simp add: ParseDocument_def)
next
  case (Some a)
  with assms have "a < length h"
    by (auto simp: ParseDocument_def split: if_splits)
  with assms Some show ?thesis
    by (auto simp: ParseDocument_Some split: if_splits)
qed

lemma count_twoParagraphs: "length (dom_GetElementsByTagName twoParagraphs ''*'') = 7"
  by (simp add: twoParagraphs_def page_def element_def text_node_def
      dom_GetElementsByTagName_def)

text \<open>A call that passes the size check returns what \<open>assemble\<close> builds from what
  \<open>grabArticle\<close> and \<open>readable\<close> found.\<close>

lemma ParseDocument_content:
  assumes "a < length h" and "\<not> tooLarge ps (h ! a)"
    and "grabbedFor D ps h a u = (md, g, ps2, h2)"
    and "readable D ps2 md g = (md', n, markup, plain)"
  shows "ParseDocument D ps h (Some a) u =
           Some \<lparr>ret_Article = fst (assemble D ps2 u md' n markup plain), ret_error = None,
                 ps_after = ps2, store_after = h2,
                 printed = snd (assemble D ps2 u md' n markup plain)\<rparr>"
  using assms
  by (simp add: ParseDocument_Some extractArticle_def grabbedFor_def split: prod.splits)

lemma ParseDocument_article:
  assumes "a < length h" and "\<not> tooLarge ps (h ! a)"
    and "grabbedFor D ps h a u = (md, g, ps2, h2)"
  shows "\<exists>r. ParseDocument D ps h (Some a) u = Some r \<and> ret_error r = None
           \<and> ps_after r = ps2 \<and> store_after r = h2
           \<and> ret_Article r =
               fst (assemble D ps2 u (fst (readable D ps2 md g))
                      (fst (snd (readable D ps2 md g)))
                      (fst (snd (snd (readable D ps2 md g))))
                      (snd (snd (snd (readable D ps2 md g)))))"
  using ParseDocument_content [OF assms, of "fst (readable D ps2 md g)"
          "fst (snd (readable D ps2 md g))" "fst (snd (snd (readable D ps2 md g)))"
          "snd (snd (snd (readable D ps2 md g)))"]
  by simp


lemma assemble_fields:
  "Title (fst (assemble D ps u m n x y)) =
     strings_ToValidUTF8 (articleTitle ps) (case u of None \<Rightarrow> [] | Some v \<Rightarrow> url_String v)"
  "Byline (fst (assemble D ps u m n x y)) =
     strings_ToValidUTF8
       (if getm m ''byline'' = [] then articleByline ps else getm m ''byline'') []"
  "Excerpt (fst (assemble D ps u m n x y)) =
     strings_ToValidUTF8
       (strings_Join (strings_Fields (strings_TrimSpace (getm m ''excerpt''))) '' '') []"
  "Node (fst (assemble D ps u m n x y)) = n"
  "Content (fst (assemble D ps u m n x y)) = x"
  "TextContent (fst (assemble D ps u m n x y)) = y"
  "Length (fst (assemble D ps u m n x y)) = charCount y"
  "SiteName (fst (assemble D ps u m n x y)) = getm m ''siteName''"
  "Image (fst (assemble D ps u m n x y)) = getm m ''image''"
  "Favicon (fst (assemble D ps u m n x y)) = getm m ''favicon''"
  "PublishedTime (fst (assemble D ps u m n x y)) = fst (getDate D m ''datePublished'')"
  "ModifiedTime (fst (assemble D ps u m n x y)) = fst (getDate D m ''dataModified'')"
  by (simp_all add: assemble_def Let_def)

text \<open>Lines 82 to 87 write the key \<open>excerpt\<close> and no other.\<close>

lemma readable_keeps:
  "k \<noteq> ''excerpt'' \<Longrightarrow> fst (readable D ps md g) k = md k"
  by (cases g) (auto simp: readable_def Let_def split: list.splits)

lemma getm_readable:
  "k \<noteq> ''excerpt'' \<Longrightarrow> getm (fst (readable D ps md g)) k = getm md k"
  by (simp add: getm_def readable_keeps)

lemma getDate_readable:
  "k \<noteq> ''excerpt'' \<Longrightarrow> getDate D (fst (readable D ps md g)) k = getDate D md k"
  by (simp add: getDate_def readable_keeps)

text \<open>The loop over the layouts against \<open>find\<close>.\<close>

lemma tryFormats_fst:
  "fst (tryFormats parse s fs) =
     (case find (\<lambda>layout. \<not> isl (parse layout s)) fs of
        None \<Rightarrow> None
      | Some layout \<Rightarrow> Some (projr (parse layout s)))"
  by (induction fs) (auto split: sum.splits)

lemma tryFormats_snd:
  "fs \<noteq> [] \<Longrightarrow>
   snd (tryFormats parse s fs) =
     (case find (\<lambda>layout. \<not> isl (parse layout s)) fs of
        None \<Rightarrow> [failureLine s]
      | Some layout \<Rightarrow> [])"
  by (induction fs) (auto split: sum.splits)

lemma formats_not_Nil: "formats \<noteq> []"
  by (simp add: formats_def)

subsection \<open>The instance, evaluated\<close>

lemma tooLarge_six: "tooLarge (usedParser 6) twoParagraphs"
  by (simp add: tooLarge_def usedParser_def count_twoParagraphs)

lemma not_tooLarge_unlimited [simp]: "\<not> tooLarge (usedParser 0) t"
  by (simp add: tooLarge_def usedParser_def)

lemma grabbed_twoParagraphs:
  "grabbedFor (fixture md) (usedParser k) [twoParagraphs] 0 u =
     (md,
      Some (container [element ''p'' [text_node ''  Hello  world ''],
                       element ''p'' [text_node ''second'']]),
      (resetParser (usedParser k) 1 u)\<lparr>articleTitle := getm md ''title'',
                                          articleByline := ''A. Writer''\<rparr>,
      [twoParagraphs, headOnly])"
  by (simp add: grabbedFor_def grab_def prepare_def fixture_def wrapBody_def page_def
      twoParagraphs_def element_def text_node_def dom_GetElementsByTagName_def container_def
      headOnly_def Let_def)

lemma grabbed_imageOnly:
  "grabbedFor (fixture md) (usedParser k) [imageOnly] 0 u =
     (md, Some (container [element ''img'' []]),
      (resetParser (usedParser k) 1 u)\<lparr>articleTitle := getm md ''title'',
                                          articleByline := ''A. Writer''\<rparr>,
      [imageOnly, headOnly])"
  by (simp add: grabbedFor_def grab_def prepare_def fixture_def wrapBody_def page_def
      imageOnly_def element_def text_node_def dom_GetElementsByTagName_def container_def
      headOnly_def Let_def)


lemma firstMatch_leap_day: "firstMatch oneLayoutParse ''2020-02-29'' = Some ''2006-01-02''"
  by (simp add: firstMatch_def formats_def oneLayoutParse_def digit_def byte_def num_def
      daysIn_def)

lemma parse_leap_day: "oneLayoutParse ''2006-01-02'' ''2020-02-29'' = Inr (2020, 2, 29)"
  by (simp add: oneLayoutParse_def digit_def byte_def num_def daysIn_def)

lemma firstMatch_yesterday: "firstMatch oneLayoutParse ''yesterday'' = None"
  by (simp add: firstMatch_def formats_def oneLayoutParse_def)

lemma trim_hello: "strings_TrimSpace ''  Hello  world '' = ''Hello  world''"
  by (simp add: strings_eval)

lemma excerpt_hello:
  "strings_ToValidUTF8
     (strings_Join (strings_Fields (strings_TrimSpace ''Hello  world'')) '' '') [] = ''Hello world''"
  by (simp add: strings_eval)

lemma getParsedDate_leap_day:
  "getParsedDate oneLayoutParse ''2020-02-29'' = (Some (2020, 2, 29), [])"
  using tryFormats_fst [of oneLayoutParse "''2020-02-29''" formats]
        tryFormats_snd [OF formats_not_Nil, of oneLayoutParse "''2020-02-29''"]
        firstMatch_leap_day parse_leap_day
  by (cases "tryFormats oneLayoutParse ''2020-02-29'' formats")
     (simp add: getParsedDate_def firstMatch_def)

lemma getParsedDate_march:
  "fst (getParsedDate oneLayoutParse ''2021-03-04'') = Some (2021, 3, 4)"
  by (simp add: getParsedDate_def tryFormats_fst formats_def oneLayoutParse_def digit_def byte_def
      num_def daysIn_def)


lemma paragraphs_of_container:
  "dom_GetElementsByTagName
     (container [element ''p'' [text_node ''  Hello  world ''], element ''p'' [text_node ''second'']])
     ''p''
   = [element ''p'' [text_node ''  Hello  world ''], element ''p'' [text_node ''second'']]"
  by (simp add: container_def element_def text_node_def dom_GetElementsByTagName_def)

lemma text_of_first_paragraph:
  "dom_TextContent (element ''p'' [text_node ''  Hello  world '']) = ''  Hello  world ''"
  by (simp add: element_def text_node_def)

lemma excerpt_hello2:
  "strings_ToValidUTF8
     (strings_Join
        (strings_Fields (strings_TrimSpace (strings_TrimSpace ''  Hello  world ''))) '' '') []
   = ''Hello world''"
  by (simp add: strings_eval)

lemma twoParagraphs_excerpt:
  "map_option (Excerpt \<circ> ret_Article)
     (ParseDocument (fixture someMetadata) (usedParser 0) [twoParagraphs] (Some 0) pageURL0)
   = Some ''Hello world''"
proof -
  have a: "0 < length [twoParagraphs]" by simp
  have n: "\<not> tooLarge (usedParser 0) ([twoParagraphs] ! 0)" by simp
  have "getm (fst (readable (fixture someMetadata) q someMetadata
          (Some (container [element ''p'' [text_node ''  Hello  world ''],
                            element ''p'' [text_node ''second'']])))) ''excerpt''
        = strings_TrimSpace ''  Hello  world ''" for q
    by (simp add: readable_def Let_def getm_def someMetadata_def fixture_def
        paragraphs_of_container text_of_first_paragraph)
  with ParseDocument_article [OF a n grabbed_twoParagraphs, of someMetadata pageURL0]
  show ?thesis
    by (auto simp: assemble_fields excerpt_hello2)
qed

lemma markup_of_image:
  "renderChildren (container [element ''img'' []])
   = ''<div id='' @ [CHR 0x22] @ ''readability-page-1'' @ [CHR 0x22] @ ''><img/></div>''"
  by (simp add: renderChildren_def container_def element_def renderAttr_def voidElements_def)

lemma text_of_image: "dom_TextContent (container [element ''img'' []]) = []"
  by (simp add: container_def element_def)

lemma trim_empty: "strings_TrimSpace [] = []"
  by (simp add: strings_eval)

lemma repaired_title:
  "strings_ToValidUTF8 [CHR 0xC3] ''http://example.org/a'' = ''http://example.org/a''"
  by (simp add: strings_eval)

lemma repaired_byline: "strings_ToValidUTF8 (''Jo'' @ [CHR 0xFF, CHR 0xFE] @ ''e'') [] = ''Joe''"
  by (simp add: strings_eval)

lemma repaired_excerpt:
  "strings_ToValidUTF8
     (strings_Join
        (strings_Fields (strings_TrimSpace ('' a '' @ [CHR 0x80] @ '' summary  ''))) '' '') []
   = ''a  summary''"
  by (simp add: strings_eval)

lemma valid_url: "utf8_ValidString ''http://example.org/a''"
  by (simp add: strings_eval)

section \<open>The claims\<close>

text \<open>
  C2. Extraction works on a clone: \<open>ps.doc\<close> is a new address, and when the call returns
  the store is the store of the caller, every tree as it was, followed by one new tree.
  The caller's document is among the trees that did not change.
\<close>

theorem caller_tree_untouched:
  "a < length h \<Longrightarrow>
   \<exists>r c. ParseDocument D ps h (Some a) u = Some r
          \<and> doc (resetParser ps (length h) u) = length h
          \<and> store_after r = h @ [c]"
  using grab_store [of "resetParser ps (length h) u" h D "h ! a"]
  by (auto simp: ParseDocument_Some extract_store)

theorem caller_tree_untouched_witness:
  "\<exists>r c. ParseDocument (fixture someMetadata) (usedParser 0) [twoParagraphs, emptyPage] (Some 0)
            pageURL0 = Some r
         \<and> doc (resetParser (usedParser 0) (length [twoParagraphs, emptyPage]) pageURL0)
             = length [twoParagraphs, emptyPage]
         \<and> store_after r = [twoParagraphs, emptyPage] @ [c]"
proof -
  have a: "0 < length [twoParagraphs, emptyPage]" by simp
  show ?thesis
    by (rule caller_tree_untouched [OF a])
qed

text \<open>In the instance the clone is rewritten (the script and the body are gone from it)
  while the caller's tree stays.\<close>

lemma clone_rewritten:
  "map_option store_after
     (ParseDocument (fixture someMetadata) (usedParser 0) [twoParagraphs] (Some 0) pageURL0)
   = Some [twoParagraphs,
           Html_Node DocumentNode [] []
             [element ''html'' [element ''head'' [element ''title'' [text_node ''A page'']]]]]"
  by (simp add: ParseDocument_Some tooLarge_def usedParser_def extract_store grab_def prepare_def
      fixture_def wrapBody_def twoParagraphs_def page_def element_def text_node_def
      dom_GetElementsByTagName_def resetParser_def)

text \<open>
  C3. A call on a document whose number of elements is at most \<open>MaxElemsToParse\<close>, or with
  \<open>MaxElemsToParse = 0\<close>, returns no error. When the number of elements exceeds a positive
  \<open>MaxElemsToParse\<close> the call returns the error with that number, and nothing but the reset
  and the clone has happened: none of the parameters enters the outcome.
\<close>

theorem size_limit:
  assumes "a < length h"
  shows "\<exists>r. ParseDocument D ps h (Some a) u = Some r
     \<and> ((int (length (dom_GetElementsByTagName (h ! a) ''*'')) \<le> MaxElemsToParse ps
          \<or> MaxElemsToParse ps = 0) \<longrightarrow> ret_error r = None)
     \<and> (0 < MaxElemsToParse ps
          \<and> MaxElemsToParse ps < int (length (dom_GetElementsByTagName (h ! a) ''*''))
        \<longrightarrow> r = \<lparr>ret_Article = Article_zero,
                 ret_error = Some (DocumentsTooLarge
                               (int (length (dom_GetElementsByTagName (h ! a) ''*'')))),
                 ps_after = resetParser ps (length h) u, store_after = h @ [h ! a],
                 printed = []\<rparr>)"
  using assms by (auto simp: ParseDocument_Some tooLarge_def)

theorem size_limit_witness:
  "(\<exists>r. ParseDocument (fixture someMetadata) (usedParser 7) [twoParagraphs] (Some 0) pageURL0
          = Some r
       \<and> ret_error r = None)
   \<and> (\<exists>r. ParseDocument (fixture someMetadata) (usedParser 0) [twoParagraphs] (Some 0) pageURL0
          = Some r
       \<and> ret_error r = None)
   \<and> (\<exists>r. ParseDocument (fixture someMetadata) (usedParser 6) [twoParagraphs] (Some 0) pageURL0
          = Some r
       \<and> r = \<lparr>ret_Article = Article_zero, ret_error = Some (DocumentsTooLarge 7),
                ps_after = resetParser (usedParser 6) 1 pageURL0,
                store_after = [twoParagraphs, twoParagraphs], printed = []\<rparr>)"
proof -
  have a: "0 < length [twoParagraphs]" by simp
  have m: "MaxElemsToParse (usedParser k) = k" for k by (simp add: usedParser_def)
  show ?thesis
    using size_limit [OF a, of "fixture someMetadata" "usedParser 7" pageURL0]
          size_limit [OF a, of "fixture someMetadata" "usedParser 0" pageURL0]
          size_limit [OF a, of "fixture someMetadata" "usedParser 6" pageURL0]
    by (simp add: count_twoParagraphs m)
qed



text \<open>
  C6. \<open>getParsedDate\<close> returns the time stamp that \<open>time.Parse\<close> reads with the first
  layout of the list that matches the string, and prints nothing; when no layout matches
  it returns nil, having printed one line. There is no error in what it returns.
\<close>

theorem first_matching_layout_wins:
  "getParsedDate parse dateStr =
     (case firstMatch parse dateStr of
        None \<Rightarrow> (None, [failureLine dateStr])
      | Some layout \<Rightarrow> (Some (projr (parse layout dateStr)), []))"
  using tryFormats_fst [of parse dateStr formats]
        tryFormats_snd [OF formats_not_Nil, of parse dateStr]
  by (cases "tryFormats parse dateStr formats")
     (auto simp: getParsedDate_def firstMatch_def split: option.splits)

theorem first_matching_layout_wins_witness:
  "getParsedDate oneLayoutParse ''2020-02-29'' = (Some (2020, 2, 29), [])
   \<and> getParsedDate oneLayoutParse ''yesterday'' = (None, [failureLine ''yesterday''])"
  using first_matching_layout_wins [of oneLayoutParse "''2020-02-29''"]
        first_matching_layout_wins [of oneLayoutParse "''yesterday''"]
  by (simp add: firstMatch_leap_day parse_leap_day firstMatch_yesterday)

text \<open>
  C10. When \<open>dom.Parse\<close> fails, \<open>Parse\<close> returns the zero article with the error that wraps
  the parser's; when the document has more elements than a positive \<open>MaxElemsToParse\<close>,
  \<open>ParseDocument\<close> returns the zero article with the size error; and whenever either
  function returns an error, the article beside it is the zero article.
\<close>

theorem errors_come_with_zero_article:
  "(dom_Parse D input = Inl e \<longrightarrow>
      Parse D ps h input u =
        Some \<lparr>ret_Article = Article_zero, ret_error = Some (FailedToParseInput e),
              ps_after = ps, store_after = h, printed = []\<rparr>)
   \<and> (a < length h \<and> tooLarge ps (h ! a) \<longrightarrow>
        (\<exists>r. ParseDocument D ps h (Some a) u = Some r \<and> ret_Article r = Article_zero
           \<and> ret_error r = Some (DocumentsTooLarge
                                  (int (length (dom_GetElementsByTagName (h ! a) ''*''))))))
   \<and> (\<forall>r. (Parse D ps h input u = Some r \<or> ParseDocument D ps h docp u = Some r)
            \<and> ret_error r \<noteq> None \<longrightarrow> ret_Article r = Article_zero)"
proof (intro conjI impI allI)
  assume "dom_Parse D input = Inl e"
  then show "Parse D ps h input u =
        Some \<lparr>ret_Article = Article_zero, ret_error = Some (FailedToParseInput e),
              ps_after = ps, store_after = h, printed = []\<rparr>"
    by (simp add: Parse_def)
next
  assume "a < length h \<and> tooLarge ps (h ! a)"
  then show "\<exists>r. ParseDocument D ps h (Some a) u = Some r \<and> ret_Article r = Article_zero
           \<and> ret_error r = Some (DocumentsTooLarge
                                  (int (length (dom_GetElementsByTagName (h ! a) ''*''))))"
    by (simp add: ParseDocument_Some)
next
  fix r
  assume A: "(Parse D ps h input u = Some r \<or> ParseDocument D ps h docp u = Some r)
            \<and> ret_error r \<noteq> None"
  then consider (p) "Parse D ps h input u = Some r" | (d) "ParseDocument D ps h docp u = Some r"
    by blast
  then show "ret_Article r = Article_zero"
  proof cases
    case p
    show ?thesis
    proof (cases "dom_Parse D input")
      case (Inl e')
      with p show ?thesis by (auto simp: Parse_def)
    next
      case (Inr t)
      with p have "ParseDocument D ps (h @ [t]) (Some (length h)) u = Some r"
        by (simp add: Parse_def)
      from ParseDocument_error [OF this] A show ?thesis by blast
    qed
  next
    case d
    from ParseDocument_error [OF d] A show ?thesis by blast
  qed
qed

theorem errors_come_with_zero_article_witness:
  "Parse (fixture someMetadata) (usedParser 6) [twoParagraphs] None pageURL0 =
        Some \<lparr>ret_Article = Article_zero,
              ret_error = Some (FailedToParseInput ''unexpected EOF''),
              ps_after = usedParser 6, store_after = [twoParagraphs], printed = []\<rparr>
   \<and> (\<exists>r. ParseDocument (fixture someMetadata) (usedParser 6) [twoParagraphs] (Some 0) pageURL0
            = Some r
         \<and> ret_error r = Some (DocumentsTooLarge 7) \<and> ret_Article r = Article_zero)"
proof -
  have p: "dom_Parse (fixture someMetadata) None = Inl ''unexpected EOF''"
    by (simp add: fixture_def)
  have t: "0 < length [twoParagraphs] \<and> tooLarge (usedParser 6) ([twoParagraphs] ! 0)"
    by (simp add: tooLarge_six)
  note T = errors_come_with_zero_article
             [of "fixture someMetadata" None "''unexpected EOF''" "usedParser 6"
                 "[twoParagraphs]" pageURL0 0 "Some 0"]
  from T p have 1: "Parse (fixture someMetadata) (usedParser 6) [twoParagraphs] None pageURL0 =
        Some \<lparr>ret_Article = Article_zero,
              ret_error = Some (FailedToParseInput ''unexpected EOF''),
              ps_after = usedParser 6, store_after = [twoParagraphs], printed = []\<rparr>"
    by blast
  from T t obtain r where
    r: "ParseDocument (fixture someMetadata) (usedParser 6) [twoParagraphs] (Some 0) pageURL0
          = Some r" "ret_error r = Some (DocumentsTooLarge 7)"
    by (auto simp: count_twoParagraphs)
  from T r have "ret_Article r = Article_zero" by auto
  with 1 r show ?thesis by blast
qed

text \<open>
  C4. \<open>ModifiedTime\<close> is read from the key \<open>dataModified\<close> (line 118), not from
  \<open>dateModified\<close>: with metadata whose \<open>dateModified\<close> is a date the parser accepts, the
  article's \<open>ModifiedTime\<close> is nil, while \<open>PublishedTime\<close>, read from \<open>datePublished\<close> one
  line above, carries its date.
\<close>

theorem ModifiedTime_reads_misspelt_key:
  "someMetadata ''dateModified'' = Some ''2021-03-04''
   \<and> fst (getParsedDate oneLayoutParse ''2021-03-04'') = Some (2021, 3, 4)
   \<and> map_option (ModifiedTime \<circ> ret_Article)
        (ParseDocument (fixture someMetadata) (usedParser 0) [twoParagraphs] (Some 0) pageURL0)
      = Some None
   \<and> map_option (PublishedTime \<circ> ret_Article)
        (ParseDocument (fixture someMetadata) (usedParser 0) [twoParagraphs] (Some 0) pageURL0)
      = Some (Some (2020, 2, 29))"
proof -
  have a: "0 < length [twoParagraphs]" by simp
  have n: "\<not> tooLarge (usedParser 0) ([twoParagraphs] ! 0)" by simp
  from ParseDocument_article [OF a n grabbed_twoParagraphs, of someMetadata pageURL0]
  obtain r where
    r: "ParseDocument (fixture someMetadata) (usedParser 0) [twoParagraphs] (Some 0) pageURL0
          = Some r"
    and m: "ModifiedTime (ret_Article r) = fst (getDate (fixture someMetadata) someMetadata ''dataModified'')"
    and p: "PublishedTime (ret_Article r) = fst (getDate (fixture someMetadata) someMetadata ''datePublished'')"
    by (auto simp: assemble_fields getDate_readable)
  have "fst (getDate (fixture someMetadata) someMetadata ''dataModified'') = None"
    by (simp add: getDate_def someMetadata_def)
  moreover have "fst (getDate (fixture someMetadata) someMetadata ''datePublished'') = Some (2020, 2, 29)"
    by (simp add: getDate_def someMetadata_def fixture_def getParsedDate_leap_day)
  moreover have "someMetadata ''dateModified'' = Some ''2021-03-04''"
    by (simp add: someMetadata_def)
  ultimately show ?thesis using r m p by (simp add: getParsedDate_march)
qed



text \<open>
  C5, as stated, fails: with no excerpt in the metadata and a first paragraph
  \<open>Hello  world\<close> (two spaces inside, white space around), the trimmed text of the
  paragraph keeps both spaces and the excerpt has one.
\<close>

theorem excerpt_is_not_the_trimmed_text:
  "someMetadata ''excerpt'' = None
   \<and> fst (snd (grabbedFor (fixture someMetadata) (usedParser 0) [twoParagraphs] 0 pageURL0))
       = Some (container [element ''p'' [text_node ''  Hello  world ''],
                          element ''p'' [text_node ''second'']])
   \<and> hd (dom_GetElementsByTagName
            (container [element ''p'' [text_node ''  Hello  world ''],
                        element ''p'' [text_node ''second'']]) ''p'')
       = element ''p'' [text_node ''  Hello  world '']
   \<and> strings_TrimSpace (dom_TextContent (element ''p'' [text_node ''  Hello  world '']))
       = ''Hello  world''
   \<and> map_option (Excerpt \<circ> ret_Article)
        (ParseDocument (fixture someMetadata) (usedParser 0) [twoParagraphs] (Some 0) pageURL0)
       = Some ''Hello world''"
proof -
  have "someMetadata ''excerpt'' = None" by (simp add: someMetadata_def)
  then show ?thesis
    by (simp add: twoParagraphs_excerpt grabbed_twoParagraphs paragraphs_of_container
        text_of_first_paragraph trim_hello)
qed

text \<open>
  C5, amended. With no excerpt in the metadata and at least one paragraph in the container
  (as \<open>postProcessContent\<close> left it), the excerpt is the trimmed text of the first
  paragraph after lines 102 to 115: trimmed again, every run of white space made one
  space, and the bytes that are not well-formed UTF-8 removed.
\<close>

theorem excerpt_from_first_paragraph:
  assumes "a < length h" and "\<not> tooLarge ps (h ! a)"
    and "grabbedFor D ps h a u = (md, Some ac, ps2, h2)"
    and "getm md ''excerpt'' = []"
    and "dom_GetElementsByTagName (postProcessContent D ps2 ac) ''p'' = p # rest"
  shows "\<exists>r. ParseDocument D ps h (Some a) u = Some r
     \<and> Excerpt (ret_Article r) =
         strings_ToValidUTF8
           (strings_Join
              (strings_Fields
                 (strings_TrimSpace (strings_TrimSpace (dom_TextContent p)))) '' '') []"
proof -
  have "getm (fst (readable D ps2 md (Some ac))) ''excerpt''
          = strings_TrimSpace (dom_TextContent p)"
    using assms(4,5) by (simp add: readable_def Let_def getm_def)
  with ParseDocument_article [OF assms(1-3)] show ?thesis
    by (auto simp: assemble_fields)
qed

theorem excerpt_from_first_paragraph_witness:
  "\<exists>r. ParseDocument (fixture someMetadata) (usedParser 0) [twoParagraphs] (Some 0) pageURL0
          = Some r
     \<and> Excerpt (ret_Article r) =
         strings_ToValidUTF8
           (strings_Join
              (strings_Fields
                 (strings_TrimSpace (strings_TrimSpace
                    (dom_TextContent (element ''p'' [text_node ''  Hello  world '']))))) '' '') []"
proof -
  have a: "0 < length [twoParagraphs]" by simp
  have n: "\<not> tooLarge (usedParser 0) ([twoParagraphs] ! 0)" by simp
  have e: "getm someMetadata ''excerpt'' = []" by (simp add: getm_def someMetadata_def)
  have p: "dom_GetElementsByTagName
             (postProcessContent (fixture someMetadata)
                ((resetParser (usedParser 0) 1 pageURL0)
                   \<lparr>articleTitle := getm someMetadata ''title'', articleByline := ''A. Writer''\<rparr>)
                (container [element ''p'' [text_node ''  Hello  world ''],
                            element ''p'' [text_node ''second'']])) ''p''
           = element ''p'' [text_node ''  Hello  world ''] # [element ''p'' [text_node ''second'']]"
    by (simp add: fixture_def paragraphs_of_container)
  show ?thesis
    by (rule excerpt_from_first_paragraph [OF a n grabbed_twoParagraphs e p])
qed

text \<open>
  C1, as stated, fails: when the container \<open>grabArticle\<close> returns holds markup and no
  text (here a single image), \<open>Length\<close> is 0 and \<open>Content\<close> is the markup.
\<close>

theorem markup_without_text:
  "map_option (Length \<circ> ret_Article)
     (ParseDocument (fixture someMetadata) (usedParser 0) [imageOnly] (Some 0) pageURL0)
   = Some 0
   \<and> map_option (Content \<circ> ret_Article)
        (ParseDocument (fixture someMetadata) (usedParser 0) [imageOnly] (Some 0) pageURL0)
      = Some (''<div id='' @ [CHR 0x22] @ ''readability-page-1'' @ [CHR 0x22]
                @ ''><img/></div>'')"
proof -
  have a: "0 < length [imageOnly]" by simp
  have n: "\<not> tooLarge (usedParser 0) ([imageOnly] ! 0)" by simp
  have "snd (readable (fixture someMetadata) q someMetadata
               (Some (container [element ''img'' []])))
        = (Some (Html_Node ElementNode ''div''
                   [\<lparr>attr_Namespace = [], attr_Key = ''id'',
                     attr_Val = ''readability-page-1''\<rparr>] [element ''img'' []]),
           ''<div id='' @ [CHR 0x22] @ ''readability-page-1'' @ [CHR 0x22] @ ''><img/></div>'',
           [])" for q
    using markup_of_image text_of_image
    by (simp add: readable_def Let_def fixture_def trim_empty dom_FirstElementChild_def
        container_def element_def)
  with ParseDocument_article [OF a n grabbed_imageOnly, of someMetadata pageURL0]
  show ?thesis
    by (auto simp: assemble_fields charCount_zero)
qed

text \<open>
  C1, amended. \<open>Length\<close> is the number of characters of \<open>TextContent\<close>, so it is 0 exactly
  when \<open>TextContent\<close> is empty. When the call stops at the size check or \<open>grabArticle\<close>
  returns nil, \<open>Content\<close> and \<open>TextContent\<close> are both empty; otherwise \<open>Content\<close> is the
  serialization of the container and \<open>TextContent\<close> its trimmed text.
\<close>

theorem length_counts_the_text:
  assumes "a < length h"
  shows "\<exists>r. ParseDocument D ps h (Some a) u = Some r
     \<and> Length (ret_Article r) = charCount (TextContent (ret_Article r))
     \<and> (Length (ret_Article r) = 0 \<longleftrightarrow> TextContent (ret_Article r) = [])
     \<and> (tooLarge ps (h ! a) \<or> fst (snd (grabbedFor D ps h a u)) = None
          \<longrightarrow> Content (ret_Article r) = [] \<and> TextContent (ret_Article r) = [])
     \<and> (\<forall>ac. \<not> tooLarge ps (h ! a) \<and> fst (snd (grabbedFor D ps h a u)) = Some ac \<longrightarrow>
           Content (ret_Article r)
             = dom_InnerHTML D
                 (postProcessContent D (fst (snd (snd (grabbedFor D ps h a u)))) ac)
           \<and> TextContent (ret_Article r)
             = strings_TrimSpace
                 (dom_TextContent
                    (postProcessContent D (fst (snd (snd (grabbedFor D ps h a u)))) ac)))"
proof (cases "tooLarge ps (h ! a)")
  case True
  with assms show ?thesis
    by (simp add: ParseDocument_Some Article_zero_def charCount_zero)
next
  case False
  obtain md g ps2 h2 where G: "grabbedFor D ps h a u = (md, g, ps2, h2)"
    by (cases "grabbedFor D ps h a u") auto
  from ParseDocument_article [OF assms False G]
  show ?thesis
    using False G
    by (cases g) (auto simp: assemble_fields charCount_zero readable_def Let_def)
qed

theorem length_counts_the_text_witness:
  "\<exists>r. ParseDocument (fixture someMetadata) (usedParser 0) [imageOnly] (Some 0) pageURL0 = Some r
     \<and> Length (ret_Article r) = charCount (TextContent (ret_Article r))
     \<and> Length (ret_Article r) = 0 \<and> TextContent (ret_Article r) = []
     \<and> Content (ret_Article r) = renderChildren (container [element ''img'' []])"
proof -
  have a: "0 < length [imageOnly]" by simp
  have n: "\<not> tooLarge (usedParser 0) ([imageOnly] ! 0)" by simp
  have g: "fst (snd (grabbedFor (fixture someMetadata) (usedParser 0) [imageOnly] 0 pageURL0))
             = Some (container [element ''img'' []])"
    by (simp add: grabbed_imageOnly)
  have i: "dom_InnerHTML (fixture someMetadata) (postProcessContent (fixture someMetadata) q t)
             = renderChildren t" for q t
    by (simp add: fixture_def)
  have t: "strings_TrimSpace (dom_TextContent
             (postProcessContent (fixture someMetadata) q (container [element ''img'' []]))) = []"
    for q
    by (simp add: fixture_def text_of_image trim_empty)
  from length_counts_the_text [OF a, of "fixture someMetadata" "usedParser 0" pageURL0]
  obtain r where
    r: "ParseDocument (fixture someMetadata) (usedParser 0) [imageOnly] (Some 0) pageURL0 = Some r"
    and l: "Length (ret_Article r) = charCount (TextContent (ret_Article r))"
    and z: "Length (ret_Article r) = 0 \<longleftrightarrow> TextContent (ret_Article r) = []"
    and c: "\<forall>ac. \<not> tooLarge (usedParser 0) ([imageOnly] ! 0)
              \<and> fst (snd (grabbedFor (fixture someMetadata) (usedParser 0) [imageOnly] 0 pageURL0))
                  = Some ac \<longrightarrow>
           Content (ret_Article r)
             = dom_InnerHTML (fixture someMetadata)
                 (postProcessContent (fixture someMetadata)
                    (fst (snd (snd (grabbedFor (fixture someMetadata) (usedParser 0) [imageOnly] 0
                       pageURL0)))) ac)
           \<and> TextContent (ret_Article r)
             = strings_TrimSpace
                 (dom_TextContent
                    (postProcessContent (fixture someMetadata)
                       (fst (snd (snd (grabbedFor (fixture someMetadata) (usedParser 0)
                          [imageOnly] 0 pageURL0)))) ac))"
    by blast
  from c n g have "Content (ret_Article r) = renderChildren (container [element ''img'' []])"
    and "TextContent (ret_Article r) = []"
    by (simp_all add: i t)
  with r l z show ?thesis by simp
qed

text \<open>
  C8. A call that passes the size check returns no error, whatever bytes the title, the
  byline and the excerpt hold. The byline and the excerpt go through
  \<open>strings.ToValidUTF8\<close> with the empty replacement, and what comes out is well-formed
  UTF-8; the title goes through it with the page's URL as the replacement (the empty
  string when there is none), comes out well-formed when the replacement is, and a
  well-formed title comes out as it went in.
\<close>

theorem encoding_is_repaired:
  assumes "a < length h" and "\<not> tooLarge ps (h ! a)"
    and "grabbedFor D ps h a u = (md, g, ps2, h2)"
  shows "\<exists>r. ParseDocument D ps h (Some a) u = Some r \<and> ret_error r = None
     \<and> Title (ret_Article r) =
         strings_ToValidUTF8 (articleTitle ps2) (case u of None \<Rightarrow> [] | Some v \<Rightarrow> url_String v)
     \<and> Byline (ret_Article r) =
         strings_ToValidUTF8
           (if getm md ''byline'' = [] then articleByline ps2 else getm md ''byline'') []
     \<and> Excerpt (ret_Article r) =
         strings_ToValidUTF8
           (strings_Join
              (strings_Fields
                 (strings_TrimSpace (getm (fst (readable D ps2 md g)) ''excerpt''))) '' '') []
     \<and> utf8_ValidString (Byline (ret_Article r))
     \<and> utf8_ValidString (Excerpt (ret_Article r))
     \<and> (utf8_ValidString (case u of None \<Rightarrow> [] | Some v \<Rightarrow> url_String v)
          \<longrightarrow> utf8_ValidString (Title (ret_Article r)))
     \<and> (utf8_ValidString (articleTitle ps2) \<longrightarrow> Title (ret_Article r) = articleTitle ps2)"
proof -
  from ParseDocument_article [OF assms] obtain r where
    r: "ParseDocument D ps h (Some a) u = Some r" "ret_error r = None"
    and A: "ret_Article r =
               fst (assemble D ps2 u (fst (readable D ps2 md g))
                      (fst (snd (readable D ps2 md g)))
                      (fst (snd (snd (readable D ps2 md g))))
                      (snd (snd (snd (readable D ps2 md g)))))"
    by blast
  have "Title (ret_Article r) =
         strings_ToValidUTF8 (articleTitle ps2) (case u of None \<Rightarrow> [] | Some v \<Rightarrow> url_String v)"
    and "Byline (ret_Article r) =
         strings_ToValidUTF8
           (if getm md ''byline'' = [] then articleByline ps2 else getm md ''byline'') []"
    and "Excerpt (ret_Article r) =
         strings_ToValidUTF8
           (strings_Join
              (strings_Fields
                 (strings_TrimSpace (getm (fst (readable D ps2 md g)) ''excerpt''))) '' '') []"
    by (simp_all only: A assemble_fields getm_readable [of "''byline''", simplified])
  with r show ?thesis
    by (simp add: ToValidUTF8_valid ToValidUTF8_unchanged)
qed

theorem encoding_is_repaired_witness:
  "\<exists>r. ParseDocument (fixture brokenMetadata) (usedParser 0) [twoParagraphs] (Some 0) pageURL0
          = Some r
     \<and> ret_error r = None
     \<and> Title (ret_Article r) = ''http://example.org/a''
     \<and> Byline (ret_Article r) = ''Joe''
     \<and> Excerpt (ret_Article r) = ''a  summary''
     \<and> utf8_ValidString (Byline (ret_Article r))
     \<and> utf8_ValidString (Excerpt (ret_Article r))
     \<and> utf8_ValidString (Title (ret_Article r))"
proof -
  have a: "0 < length [twoParagraphs]" by simp
  have n: "\<not> tooLarge (usedParser 0) ([twoParagraphs] ! 0)" by simp
  have m: "getm brokenMetadata ''title'' = [CHR 0xC3]"
    "getm brokenMetadata ''byline'' = ''Jo'' @ [CHR 0xFF, CHR 0xFE] @ ''e''"
    "getm brokenMetadata ''excerpt'' = '' a '' @ [CHR 0x80] @ '' summary  ''"
    by (simp_all add: getm_def brokenMetadata_def)
  have e: "getm (fst (readable (fixture brokenMetadata) q brokenMetadata x)) ''excerpt''
             = '' a '' @ [CHR 0x80] @ '' summary  ''" for q x
    using m(3) by (cases x) (simp_all add: readable_def Let_def)
  have v: "utf8_ValidString (case pageURL0 of None \<Rightarrow> [] | Some v \<Rightarrow> url_String v)"
    by (simp add: pageURL0_def valid_url)
  from encoding_is_repaired [OF a n grabbed_twoParagraphs, of brokenMetadata pageURL0]
  obtain r where
    r: "ParseDocument (fixture brokenMetadata) (usedParser 0) [twoParagraphs] (Some 0) pageURL0
          = Some r" "ret_error r = None"
    and t: "Title (ret_Article r) =
         strings_ToValidUTF8
           (articleTitle ((resetParser (usedParser 0) 1 pageURL0)
              \<lparr>articleTitle := getm brokenMetadata ''title'', articleByline := ''A. Writer''\<rparr>))
           (case pageURL0 of None \<Rightarrow> [] | Some v \<Rightarrow> url_String v)"
    and b: "Byline (ret_Article r) =
         strings_ToValidUTF8
           (if getm brokenMetadata ''byline'' = []
            then articleByline ((resetParser (usedParser 0) 1 pageURL0)
              \<lparr>articleTitle := getm brokenMetadata ''title'', articleByline := ''A. Writer''\<rparr>)
            else getm brokenMetadata ''byline'') []"
    and x: "Excerpt (ret_Article r) =
         strings_ToValidUTF8
           (strings_Join
              (strings_Fields
                 (strings_TrimSpace
                    (getm (fst (readable (fixture brokenMetadata)
                       ((resetParser (usedParser 0) 1 pageURL0)
                          \<lparr>articleTitle := getm brokenMetadata ''title'',
                            articleByline := ''A. Writer''\<rparr>)
                       brokenMetadata
                       (Some (container [element ''p'' [text_node ''  Hello  world ''],
                                         element ''p'' [text_node ''second'']])))) ''excerpt'')))
              '' '') []"
    and w: "utf8_ValidString (Byline (ret_Article r))" "utf8_ValidString (Excerpt (ret_Article r))"
    and wt: "utf8_ValidString (case pageURL0 of None \<Rightarrow> [] | Some v \<Rightarrow> url_String v)
          \<longrightarrow> utf8_ValidString (Title (ret_Article r))"
    by blast
  have "Title (ret_Article r) = ''http://example.org/a''"
    using t by (simp add: m pageURL0_def repaired_title)
  moreover have "Byline (ret_Article r) = ''Joe''"
    using b repaired_byline by (simp add: m)
  moreover have "Excerpt (ret_Article r) = ''a  summary''"
    using x by (simp only: e repaired_excerpt)
  ultimately show ?thesis using r w wt v by simp
qed


end
